theory Spec2Isabelle
  imports Main
begin

section \<open>Errors and results\<close>

text \<open>
  A JavaScript exception is a value: \<open>Error msg\<close> is \<^verbatim>\<open>new Error(msg)\<close>, the other
  constructors are the errors the runtime itself raises. A computation that may throw
  returns \<open>js_error + 'a\<close>, with \<open>Inl\<close> for the exception.
\<close>

datatype js_error =
    Error string
  | SyntaxError string
  | TypeError string
  | RangeError string
  | FetchError string

fun error_message :: "js_error \<Rightarrow> string" where
  "error_message (Error m) = m"
| "error_message (SyntaxError m) = m"
| "error_message (TypeError m) = m"
| "error_message (RangeError m) = m"
| "error_message (FetchError m) = m"

text \<open>The two quotation marks, as strings.\<close>

definition dquote :: string where
  "dquote = [CHR 0x22]"

definition squote :: string where
  "squote = [CHR 0x27]"

section \<open>The credential store (oauth.ts: saveToken, loadToken)\<close>

text \<open>
  \<^verbatim>\<open>interface TokenData { access_token: string; scope: string; obtained_at: string }\<close>
  and \<^verbatim>\<open>interface TokenStore { [domain: string]: TokenData }\<close>.
  The store is a plain object used as a dictionary. Its own entries are a map from domain
  to record; these are what \<^verbatim>\<open>JSON.stringify\<close> writes and \<^verbatim>\<open>JSON.parse\<close> reads.
\<close>

record TokenData =
  access_token :: string
  scope :: string
  obtained_at :: string

type_synonym TokenStore = "string \<rightharpoonup> TokenData"

text \<open>
  Besides its own entries a plain object has the members it inherits from
  \<^verbatim>\<open>Object.prototype\<close>: these names. All are functions, but \<^verbatim>\<open>__proto__\<close>, an
  accessor: reading it gives the prototype object, assigning an object to it replaces the
  prototype and adds no entry.
\<close>

definition Object_prototype_names :: "string list" where
  "Object_prototype_names =
     [''constructor'', ''__defineGetter__'', ''__defineSetter__'', ''hasOwnProperty'',
      ''__lookupGetter__'', ''__lookupSetter__'', ''isPrototypeOf'', ''propertyIsEnumerable'',
      ''toString'', ''valueOf'', ''__proto__'', ''toLocaleString'']"

text \<open>
  \<^verbatim>\<open>tokens[domain]\<close>: the own entry when there is one, else the inherited member of
  that name, else \<^verbatim>\<open>undefined\<close>.
\<close>

datatype property = Undefined | Own TokenData | Inherited string

definition get_property :: "TokenStore \<Rightarrow> string \<Rightarrow> property" where
  "get_property tokens name =
     (case tokens name of
        Some t \<Rightarrow> Own t
      | None \<Rightarrow> if name \<in> set Object_prototype_names then Inherited name else Undefined)"

text \<open>
  \<^verbatim>\<open>tokens[domain] = tokenData\<close>: an own entry is overwritten; a new name becomes an
  own entry, except \<^verbatim>\<open>__proto__\<close>, whose inherited setter takes the record and leaves
  the entries as they are.
\<close>

definition set_property :: "TokenStore \<Rightarrow> string \<Rightarrow> TokenData \<Rightarrow> TokenStore" where
  "set_property tokens name v =
     (if name = ''__proto__'' \<and> tokens name = None then tokens else tokens(name \<mapsto> v))"

text \<open>
  The text of \<^verbatim>\<open>~/.shopify-mcp/tokens.json\<close> is represented by what
  \<^verbatim>\<open>JSON.parse\<close> makes of it: either the text is not JSON (\<open>Corrupted\<close>, carrying
  the text) and parsing throws, or it is the serialisation of the entries of a store,
  which \<^verbatim>\<open>JSON.stringify(tokens, null, 2)\<close> writes and \<^verbatim>\<open>JSON.parse\<close> reads back.
  These are the files that the two functions leave behind, and the unreadable ones. A
  file that holds other JSON, a value that is not an object (on \<^verbatim>\<open>null\<close> the
  assignment in \<^verbatim>\<open>saveToken\<close> throws) or an object with values that are not such
  records, has no representation here, and the properties of the store say nothing of it.
  The disk holds the directory and, when it exists, the file.
\<close>

datatype file_content = Corrupted string | Json TokenStore

record disk =
  token_dir_exists :: bool
  token_file :: "file_content option"

definition JSON_parse_store :: "file_content \<Rightarrow> js_error + TokenStore" where
  "JSON_parse_store c =
     (case c of
        Corrupted raw \<Rightarrow> Inl (SyntaxError raw)
      | Json tokens \<Rightarrow> Inr tokens)"

text \<open>
  \<^verbatim>\<open>saveToken\<close>: create the directory when it is missing; start from the empty store,
  read the file when it exists, falling back to the empty store when parsing throws;
  assign the record to the domain; write the entries of the store back.
\<close>

definition saveToken :: "string \<Rightarrow> TokenData \<Rightarrow> disk \<Rightarrow> disk" where
  "saveToken domain tokenData d =
     (let d1 = (if \<not> token_dir_exists d then d\<lparr>token_dir_exists := True\<rparr> else d);
          tokens =
            (case token_file d1 of
               None \<Rightarrow> Map.empty
             | Some c \<Rightarrow>
                 (case JSON_parse_store c of
                    Inl _ \<Rightarrow> Map.empty
                  | Inr t \<Rightarrow> t));
          tokens' = set_property tokens domain tokenData
      in d1\<lparr>token_file := Some (Json tokens')\<rparr>)"

text \<open>
  What \<^verbatim>\<open>loadToken\<close> returns: \<^verbatim>\<open>null\<close>, a record, or, where the declared type
  \<^verbatim>\<open>TokenData | null\<close> does not hold, the member of \<^verbatim>\<open>Object.prototype\<close> of the
  given name.
\<close>

datatype loaded = Null | Loaded TokenData | Prototype_member string

text \<open>
  \<^verbatim>\<open>v || null\<close>: \<^verbatim>\<open>undefined\<close> becomes \<^verbatim>\<open>null\<close>; a record, a function and the
  prototype object are truthy and stay.
\<close>

definition or_null :: "property \<Rightarrow> loaded" where
  "or_null v =
     (case v of
        Undefined \<Rightarrow> Null
      | Own t \<Rightarrow> Loaded t
      | Inherited name \<Rightarrow> Prototype_member name)"

text \<open>
  \<^verbatim>\<open>loadToken\<close>: \<^verbatim>\<open>null\<close> when the file does not exist; the \<^verbatim>\<open>try\<close> block turns
  every exception of reading and parsing into \<^verbatim>\<open>null\<close>; else
  \<^verbatim>\<open>tokens[domain] || null\<close>.
\<close>

definition loadToken :: "string \<Rightarrow> disk \<Rightarrow> js_error + loaded" where
  "loadToken domain d =
     (case token_file d of
        None \<Rightarrow> Inr Null
      | Some c \<Rightarrow>
          (case JSON_parse_store c of
             Inl _ \<Rightarrow> Inr Null
           | Inr tokens \<Rightarrow> Inr (or_null (get_property tokens domain))))"

text \<open>The store a disk holds, as \<^verbatim>\<open>saveToken\<close> reads it.\<close>

definition stored :: "disk \<Rightarrow> TokenStore" where
  "stored d =
     (case token_file d of
        Some (Json tokens) \<Rightarrow> tokens
      | _ \<Rightarrow> Map.empty)"

section \<open>The callback server (oauth.ts: startCallbackServer)\<close>

definition CALLBACK_PORT :: nat where
  "CALLBACK_PORT = 3456"

text \<open>The timer of \<^verbatim>\<open>setTimeout(..., 5 * 60 * 1000)\<close>, in milliseconds.\<close>

definition CALLBACK_TIMEOUT_MS :: nat where
  "CALLBACK_TIMEOUT_MS = 5 * 60 * 1000"

text \<open>
  An incoming request, as \<^verbatim>\<open>new URL(req.url, ...)\<close> presents it: the path and the query
  parameters in the order of the query string. \<^verbatim>\<open>searchParams.get(name)\<close> is the first
  value of that name, or \<^verbatim>\<open>null\<close>.
\<close>

record http_request =
  pathname :: string
  searchParams :: "(string \<times> string) list"

definition searchParams_get :: "http_request \<Rightarrow> string \<Rightarrow> string option" where
  "searchParams_get req name = map_of (searchParams req) name"

text \<open>What the handler writes with \<^verbatim>\<open>res.writeHead\<close> and \<^verbatim>\<open>res.end\<close>.\<close>

record http_reply =
  reply_status :: nat
  reply_body :: string

text \<open>
  The promise of \<^verbatim>\<open>new Promise((resolve, reject) => ...)\<close>: the first call of
  \<^verbatim>\<open>resolve\<close> or \<^verbatim>\<open>reject\<close> settles it, every later call does nothing.
\<close>

datatype 'a promise = Pending | Resolved 'a | Rejected js_error

definition resolve :: "'a \<Rightarrow> 'a promise \<Rightarrow> 'a promise" where
  "resolve v p = (case p of Pending \<Rightarrow> Resolved v | _ \<Rightarrow> p)"

definition reject :: "js_error \<Rightarrow> 'a promise \<Rightarrow> 'a promise" where
  "reject e p = (case p of Pending \<Rightarrow> Rejected e | _ \<Rightarrow> p)"

text \<open>
  The state of one \<^verbatim>\<open>startCallbackServer\<close> call: whether the listener holds the port,
  the promise (resolved with the pair of \<^verbatim>\<open>code\<close> and \<^verbatim>\<open>shop\<close>), and the replies
  sent so far, oldest first.
\<close>

record callback_server =
  listening :: bool
  settled :: "(string \<times> string) promise"
  replies :: "http_reply list"

text \<open>\<^verbatim>\<open>!code\<close> on a \<^verbatim>\<open>string | null\<close>: true for \<^verbatim>\<open>null\<close> and for the empty string.\<close>

definition falsy :: "string option \<Rightarrow> bool" where
  "falsy v = (case v of None \<Rightarrow> True | Some s \<Rightarrow> s = [])"

text \<open>The static confirmation page: the lines of its markup, without the layout.\<close>

definition success_page :: string where
  "success_page =
     ''<!DOCTYPE html><html><head><title>Authorization Successful</title><style>''
     @ ''body { font-family: system-ui, sans-serif; max-width: 600px; margin: 100px auto; text-align: center; }''
     @ ''h1 { color: #008060; }p { color: #637381; }</style></head><body>''
     @ ''<h1>Authorization Successful!</h1>''
     @ ''<p>You can close this window and return to your terminal.</p>''
     @ ''<p>The Shopify MCP is now connected to your store.</p></body></html>''"

definition respond :: "nat \<Rightarrow> string \<Rightarrow> callback_server \<Rightarrow> callback_server" where
  "respond st body s = s\<lparr>replies := replies s @ [\<lparr>reply_status = st, reply_body = body\<rparr>]\<rparr>"

definition server_close :: "callback_server \<Rightarrow> callback_server" where
  "server_close s = s\<lparr>listening := False\<rparr>"

text \<open>
  The request handler, in the order of the source: the path, then the \<^verbatim>\<open>state\<close>
  check, then the check for \<^verbatim>\<open>code\<close> and \<^verbatim>\<open>shop\<close>, then success.
\<close>

definition handle_request :: "string \<Rightarrow> http_request \<Rightarrow> callback_server \<Rightarrow> callback_server" where
  "handle_request expectedState req s =
     (if pathname req \<noteq> ''/callback'' then respond 404 ''Not found'' s
      else
        let code = searchParams_get req ''code'';
            state = searchParams_get req ''state'';
            shop = searchParams_get req ''shop''
        in if state \<noteq> Some expectedState then
             (let s1 = respond 400 ''Invalid state parameter. Possible CSRF attack.'' s;
                  s2 = server_close s1
              in s2\<lparr>settled := reject (Error ''Invalid state parameter'') (settled s2)\<rparr>)
           else if falsy code \<or> falsy shop then
             (let s1 = respond 400 ''Missing code or shop parameter'' s;
                  s2 = server_close s1
              in s2\<lparr>settled := reject (Error ''Missing code or shop parameter'') (settled s2)\<rparr>)
           else
             (let s1 = respond 200 success_page s;
                  s2 = server_close s1
              in s2\<lparr>settled := resolve (the code, the shop) (settled s2)\<rparr>))"

text \<open>The callback of \<^verbatim>\<open>setTimeout\<close>.\<close>

definition on_timeout :: "callback_server \<Rightarrow> callback_server" where
  "on_timeout s =
     (let s1 = server_close s
      in s1\<lparr>settled := reject (Error ''Authorization timed out after 5 minutes'') (settled s1)\<rparr>)"

text \<open>
  \<^verbatim>\<open>server.listen\<close> either binds the port, or the \<^verbatim>\<open>error\<close> event fires and its
  handler rejects the promise with \<^verbatim>\<open>Failed to start callback server\<close> and the message
  of the event; the listener then never held the port.
\<close>

definition on_listen :: "string option \<Rightarrow> callback_server" where
  "on_listen listen_error =
     (case listen_error of
        None \<Rightarrow> \<lparr>listening = True, settled = Pending, replies = []\<rparr>
      | Some m \<Rightarrow>
          \<lparr>listening = False,
           settled = Rejected (Error (''Failed to start callback server: '' @ m)),
           replies = []\<rparr>)"

text \<open>
  What happens to the server: a request reaches the handler, or the timer fires. A request
  reaches the handler over a new connection while the listener accepts connections, and
  over a connection that is still open also after \<^verbatim>\<open>server.close()\<close>; the model lets
  any request reach it.
\<close>

datatype event = Request http_request | Timeout

definition deliver :: "string \<Rightarrow> event \<Rightarrow> callback_server \<Rightarrow> callback_server" where
  "deliver expectedState ev s =
     (case ev of
        Request req \<Rightarrow> handle_request expectedState req s
      | Timeout \<Rightarrow> on_timeout s)"

fun run_events :: "string \<Rightarrow> event list \<Rightarrow> callback_server \<Rightarrow> callback_server" where
  "run_events expectedState [] s = s"
| "run_events expectedState (ev # evs) s =
     run_events expectedState evs (deliver expectedState ev s)"

text \<open>
  One call of \<^verbatim>\<open>startCallbackServer\<close>: the requests that reach the handler before the
  timer fires, in their order, and then the timer, which is never cleared.
\<close>

definition startCallbackServer ::
    "string \<Rightarrow> string option \<Rightarrow> http_request list \<Rightarrow> callback_server" where
  "startCallbackServer expectedState listen_error incoming =
     run_events expectedState (map Request incoming @ [Timeout]) (on_listen listen_error)"

text \<open>\<^verbatim>\<open>await promise\<close>: the value or the exception; \<open>None\<close> while it is pending.\<close>

definition await :: "'a promise \<Rightarrow> (js_error + 'a) option" where
  "await p =
     (case p of
        Pending \<Rightarrow> None
      | Resolved v \<Rightarrow> Some (Inr v)
      | Rejected e \<Rightarrow> Some (Inl e))"

section \<open>Numbers as text\<close>

text \<open>
  The decimal text of a non-negative integer, as a template literal
  \<^verbatim>\<open>`${n}`\<close> prints it.
\<close>

text \<open>The digit of a number below ten.\<close>

definition digit_char :: "nat \<Rightarrow> char" where
  "digit_char n = ''0123456789'' ! n"

function string_of_nat :: "nat \<Rightarrow> string" where
  "string_of_nat n =
     (if n < 10 then [digit_char n]
      else string_of_nat (n div 10) @ [digit_char (n mod 10)])"
  by pat_completeness auto
termination
  by (relation "measure (\<lambda>n. n)") auto

declare string_of_nat.simps [simp del]

section \<open>The token exchange (oauth.ts: exchangeCodeForToken)\<close>

text \<open>
  The request of \<^verbatim>\<open>fetch(url, {method: "POST", headers, body})\<close>; the body is the
  object given to \<^verbatim>\<open>JSON.stringify\<close>, as its list of fields.
\<close>

record http_post =
  post_url :: string
  post_headers :: "(string \<times> string) list"
  post_body :: "(string \<times> string) list"

text \<open>
  A \<^verbatim>\<open>Response\<close>: its status, status text and body text. \<^verbatim>\<open>response.ok\<close> is
  true exactly for a status from 200 to 299.
\<close>

record response =
  status :: nat
  statusText :: string
  body :: string

definition ok :: "response \<Rightarrow> bool" where
  "ok r = (200 \<le> status r \<and> status r \<le> 299)"

text \<open>
  A value that \<^verbatim>\<open>JSON.parse\<close> returns. A number is carried as its text, an object
  as the list of its entries, one for each name.
\<close>

datatype json =
    JNull
  | JBool bool
  | JNumber string
  | JString string
  | JArray "json list"
  | JObject "(string \<times> json) list"

text \<open>
  \<^verbatim>\<open>data.name\<close> for a name that no built-in prototype defines, as
  \<^verbatim>\<open>access_token\<close> and \<^verbatim>\<open>scope\<close> are: the entry of an object, \<^verbatim>\<open>undefined\<close>
  (\<open>None\<close>) where the object has none and on every other value, except that reading a
  property of \<^verbatim>\<open>null\<close> throws a \<^verbatim>\<open>TypeError\<close>.
\<close>

definition field_value :: "json \<Rightarrow> string \<Rightarrow> json option" where
  "field_value data name = (case data of JObject entries \<Rightarrow> map_of entries name | _ \<Rightarrow> None)"

definition read_field :: "json \<Rightarrow> string \<Rightarrow> js_error + json option" where
  "read_field data name =
     (if data = JNull then
        Inl (TypeError (''Cannot read properties of null (reading '' @ squote @ name @ squote @ '')''))
      else Inr (field_value data name))"

text \<open>
  The object \<^verbatim>\<open>exchangeCodeForToken\<close> returns. Its declared type is \<^verbatim>\<open>TokenData\<close>;
  the cast of \<^verbatim>\<open>response.json()\<close> checks nothing, so at run time the first two
  fields are whatever the response holds under these names, or \<^verbatim>\<open>undefined\<close>.
\<close>

record exchanged_token =
  got_access_token :: "json option"
  got_scope :: "json option"
  got_obtained_at :: string

text \<open>The record at its declared type, when both fields are strings.\<close>

definition as_TokenData :: "exchanged_token \<Rightarrow> TokenData option" where
  "as_TokenData t =
     (case (got_access_token t, got_scope t) of
        (Some (JString a), Some (JString s)) \<Rightarrow>
          Some \<lparr>access_token = a, scope = s, obtained_at = got_obtained_at t\<rparr>
      | _ \<Rightarrow> None)"

definition token_post :: "string \<Rightarrow> string \<Rightarrow> string \<Rightarrow> string \<Rightarrow> http_post" where
  "token_post domain clientId clientSecret code =
     \<lparr>post_url = ''https://'' @ domain @ ''/admin/oauth/access_token'',
      post_headers = [(''Content-Type'', ''application/json''), (''Accept'', ''application/json'')],
      post_body = [(''client_id'', clientId), (''client_secret'', clientSecret), (''code'', code)]\<rparr>"

text \<open>
  \<^verbatim>\<open>exchangeCodeForToken\<close>. The collaborators are parameters: \<open>fetch\<close> answers the
  request or throws, \<open>json\<close> is \<^verbatim>\<open>response.json()\<close> on the body of the response
  (the value it reads, or the exception it throws when the body is not JSON), \<open>now\<close>
  is \<^verbatim>\<open>new Date().toISOString()\<close>. The object literal reads
  \<^verbatim>\<open>data.access_token\<close>, then \<^verbatim>\<open>data.scope\<close>.
\<close>

definition exchangeCodeForToken ::
    "(http_post \<Rightarrow> js_error + response) \<Rightarrow> (string \<Rightarrow> js_error + json) \<Rightarrow> string \<Rightarrow>
     string \<Rightarrow> string \<Rightarrow> string \<Rightarrow> string \<Rightarrow> js_error + exchanged_token" where
  "exchangeCodeForToken fetch json now domain clientId clientSecret code =
     (case fetch (token_post domain clientId clientSecret code) of
        Inl e \<Rightarrow> Inl e
      | Inr response \<Rightarrow>
          if \<not> ok response then
            Inl (Error (''Failed to exchange code for token: ''
                   @ string_of_nat (status response) @ '' '' @ body response))
          else
            (case json (body response) of
               Inl e \<Rightarrow> Inl e
             | Inr data \<Rightarrow>
                 (case read_field data ''access_token'' of
                    Inl e \<Rightarrow> Inl e
                  | Inr token \<Rightarrow>
                      (case read_field data ''scope'' of
                         Inl e \<Rightarrow> Inl e
                       | Inr granted \<Rightarrow>
                           Inr \<lparr>got_access_token = token,
                                got_scope = granted,
                                got_obtained_at = now\<rparr>))))"

section \<open>The flow (oauth.ts: runOAuthFlow)\<close>

definition DEFAULT_SCOPES_list :: "string list" where
  "DEFAULT_SCOPES_list =
     [''read_products'', ''write_products'', ''read_customers'', ''write_customers'',
      ''read_orders'', ''write_orders'', ''read_inventory'', ''write_inventory'',
      ''read_locations'', ''read_content'', ''write_content'']"

text \<open>\<^verbatim>\<open>Array.prototype.join\<close>.\<close>

fun join :: "string \<Rightarrow> string list \<Rightarrow> string" where
  "join sep [] = []"
| "join sep [x] = x"
| "join sep (x # y # ys) = x @ sep @ join sep (y # ys)"

definition DEFAULT_SCOPES :: string where
  "DEFAULT_SCOPES = join '','' DEFAULT_SCOPES_list"

definition REDIRECT_URI :: string where
  "REDIRECT_URI = ''http://localhost:'' @ string_of_nat CALLBACK_PORT @ ''/callback''"

text \<open>
  The authorization URL, before \<^verbatim>\<open>URLSearchParams.toString\<close> encodes its query: the
  address and the list of parameters.
\<close>

record authorization_url =
  auth_address :: string
  auth_params :: "(string \<times> string) list"

definition buildAuthorizationUrl ::
    "string \<Rightarrow> string \<Rightarrow> string \<Rightarrow> string \<Rightarrow> authorization_url" where
  "buildAuthorizationUrl domain clientId scopes state =
     \<lparr>auth_address = ''https://'' @ domain @ ''/admin/oauth/authorize'',
      auth_params = [(''client_id'', clientId), (''scope'', scopes),
                     (''redirect_uri'', REDIRECT_URI), (''state'', state)]\<rparr>"

text \<open>
  What one run of the flow meets: the nonce \<^verbatim>\<open>crypto.randomBytes\<close> gives, whether
  the listener can bind, the requests that reach the handler before the timer fires,
  whether \<^verbatim>\<open>open\<close> throws, the token endpoint, the JSON reader, the clock, and
  what the call of \<^verbatim>\<open>saveToken\<close> throws (\<open>None\<close> when it returns).
\<close>

record oauth_env =
  nonce :: string
  listen_error :: "string option"
  incoming :: "http_request list"
  open_error :: "string option"
  fetch_token :: "http_post \<Rightarrow> js_error + response"
  parse_json :: "string \<Rightarrow> js_error + json"
  clock :: string
  save_error :: "string \<Rightarrow> exchanged_token \<Rightarrow> js_error option"

text \<open>
  What the flow did: its result (\<open>None\<close> if \<^verbatim>\<open>await callbackPromise\<close> never
  returned), the URL given to the browser, the requests sent to the token endpoint, the
  calls of \<^verbatim>\<open>saveToken\<close> with their arguments, and the callback server at the end.
  A call of \<^verbatim>\<open>saveToken\<close> with a record of the declared type (\<open>as_TokenData\<close>), on
  a token file that is absent, unreadable as JSON or a store of records, is the
  \<open>saveToken\<close> of the credential store.
\<close>

record flow_result =
  outcome :: "(js_error + exchanged_token) option"
  opened :: authorization_url
  token_requests :: "http_post list"
  saved :: "(string \<times> exchanged_token) list"
  callback :: callback_server

definition runOAuthFlow ::
    "oauth_env \<Rightarrow> string \<Rightarrow> string \<Rightarrow> string \<Rightarrow> string option \<Rightarrow> flow_result" where
  "runOAuthFlow env domain clientId clientSecret scopes =
     (let effectiveScopes = (if falsy scopes then DEFAULT_SCOPES else the scopes);
          state = nonce env;
          authUrl = buildAuthorizationUrl domain clientId effectiveScopes state;
          srv = startCallbackServer state (listen_error env) (incoming env);
          stopped = \<lparr>outcome = None, opened = authUrl, token_requests = [],
                     saved = [], callback = srv\<rparr>
      in case open_error env of
           Some m \<Rightarrow> stopped\<lparr>outcome := Some (Inl (Error m))\<rparr>
         | None \<Rightarrow>
             (case await (settled srv) of
                None \<Rightarrow> stopped
              | Some (Inl e) \<Rightarrow> stopped\<lparr>outcome := Some (Inl e)\<rparr>
              | Some (Inr (code, shop)) \<Rightarrow>
                  (let sent = stopped\<lparr>token_requests :=
                                [token_post domain clientId clientSecret code]\<rparr>
                   in case exchangeCodeForToken (fetch_token env) (parse_json env) (clock env)
                             domain clientId clientSecret code of
                        Inl e \<Rightarrow> sent\<lparr>outcome := Some (Inl e)\<rparr>
                      | Inr tokenData \<Rightarrow>
                          (case save_error env domain tokenData of
                             Some e \<Rightarrow>
                               sent\<lparr>outcome := Some (Inl e),
                                    saved := [(domain, tokenData)]\<rparr>
                           | None \<Rightarrow>
                               sent\<lparr>outcome := Some (Inr tokenData),
                                    saved := [(domain, tokenData)]\<rparr>))))"

section \<open>Numbers and text of the bulk tools\<close>

text \<open>
  A JavaScript number that \<^verbatim>\<open>parseInt\<close> returns is \<^verbatim>\<open>NaN\<close> (\<open>None\<close>) or an
  integer. The integer is exact below \<open>2 ^ 53\<close>; the properties below are stated for
  such values.
\<close>

type_synonym js_int = "int option"

text \<open>
  A string is a list of code units below 256. Of the white space and line terminators of
  the language these are the tab, the line feed, the vertical tab, the form feed, the
  carriage return, the space, and the no-break space.
\<close>

definition is_space :: "char \<Rightarrow> bool" where
  "is_space c =
     (c \<in> set [CHR '' '', CHR 0x09, CHR 0x0A, CHR 0x0B, CHR 0x0C, CHR 0x0D, CHR 0xA0])"

definition is_digit :: "char \<Rightarrow> bool" where
  "is_digit c = (c \<in> set ''0123456789'')"

definition digit_value :: "char \<Rightarrow> nat" where
  "digit_value c = of_char c - 48"

fun digits_value :: "nat \<Rightarrow> string \<Rightarrow> nat" where
  "digits_value acc [] = acc"
| "digits_value acc (c # cs) = digits_value (10 * acc + digit_value c) cs"

text \<open>
  \<^verbatim>\<open>parseInt(s, 10)\<close>: leading white space is skipped, a sign is read, then the longest
  run of decimal digits; no digit gives \<^verbatim>\<open>NaN\<close>.
\<close>

definition parseInt10 :: "string \<Rightarrow> js_int" where
  "parseInt10 s =
     (let t = dropWhile is_space s;
          negative = (t \<noteq> [] \<and> hd t = CHR ''-'');
          u = (if t \<noteq> [] \<and> (hd t = CHR ''-'' \<or> hd t = CHR ''+'') then tl t else t);
          ds = takeWhile is_digit u
      in if ds = [] then None
         else Some (if negative then - int (digits_value 0 ds) else int (digits_value 0 ds)))"

definition string_of_int :: "int \<Rightarrow> string" where
  "string_of_int i =
     (if 0 \<le> i then string_of_nat (nat i) else CHR ''-'' # string_of_nat (nat (- i)))"

text \<open>\<^verbatim>\<open>`${n}`\<close> for a number.\<close>

definition string_of_js_int :: "js_int \<Rightarrow> string" where
  "string_of_js_int n = (case n of None \<Rightarrow> ''NaN'' | Some i \<Rightarrow> string_of_int i)"

text \<open>
  \<^verbatim>\<open>(n / d).toFixed(2)\<close> for non-negative integers with \<open>d\<close> a power of two, where
  the division is exact: \<^verbatim>\<open>toFixed\<close> takes the integer \<open>h\<close> nearest to one hundred
  times the quotient, the larger one at a tie, and prints it with the point before its
  last two digits.
\<close>

definition hundredths :: "nat \<Rightarrow> nat \<Rightarrow> nat" where
  "hundredths n d = (200 * n + d) div (2 * d)"

definition toFixed2 :: "nat \<Rightarrow> nat \<Rightarrow> string" where
  "toFixed2 n d =
     (let h = hundredths n d
      in string_of_nat (h div 100) @ ''.'' @ [digit_char (h mod 100 div 10), digit_char (h mod 10)])"

text \<open>\<^verbatim>\<open>a > b\<close> for a number that may be \<^verbatim>\<open>NaN\<close>: with \<^verbatim>\<open>NaN\<close> it is false.\<close>

definition js_gt :: "js_int \<Rightarrow> int \<Rightarrow> bool" where
  "js_gt a b = (case a of None \<Rightarrow> False | Some x \<Rightarrow> x > b)"

text \<open>
  The size text of both bulk tools, for a number:
  \<^verbatim>\<open>if (bytes > 1024 * 1024) ... MB else if (bytes > 1024) ... KB else ... bytes\<close>.
\<close>

definition format_size :: "js_int \<Rightarrow> string" where
  "format_size bytes =
     (if js_gt bytes (1024 * 1024) then toFixed2 (nat (the bytes)) (1024 * 1024) @ '' MB''
      else if js_gt bytes 1024 then toFixed2 (nat (the bytes)) 1024 @ '' KB''
      else string_of_js_int bytes @ '' bytes'')"

section \<open>The upstream bulk operation\<close>

text \<open>
  The operation as the GraphQL client returns it; \<^verbatim>\<open>null\<close> is \<open>None\<close>. The two
  read queries are the lookup by id and the current operation.
\<close>

record bulk_operation =
  op_id :: string
  op_status :: string
  op_type :: string
  op_createdAt :: string
  op_completedAt :: "string option"
  op_objectCount :: string
  op_fileSize :: "string option"
  op_url :: "string option"
  op_partialDataUrl :: "string option"
  op_errorCode :: "string option"
  op_query :: "string option"

datatype bulk_lookup = GetBulkOperation string | CurrentBulkOperation

type_synonym lookup_client = "bulk_lookup \<Rightarrow> js_error + bulk_operation option"

definition lookup_for :: "string option \<Rightarrow> bulk_lookup" where
  "lookup_for operationId =
     (if falsy operationId then CurrentBulkOperation else GetBulkOperation (the operationId))"

section \<open>Status of a bulk operation (getBulkOperationStatus.ts)\<close>

record status_found =
  sf_id :: string
  sf_status :: string
  sf_type :: string
  sf_createdAt :: string
  sf_completedAt :: "string option"
  sf_objectCount :: js_int
  sf_fileSize :: "string option"
  sf_fileSizeBytes :: "js_int option"
  sf_url :: "string option"
  sf_partialDataUrl :: "string option"
  sf_errorCode :: "string option"
  sf_progress :: string
  sf_isComplete :: bool
  sf_isFailed :: bool
  sf_isRunning :: bool

datatype status_result = NotFound string | Found status_found

text \<open>
  \<^verbatim>\<open>if (data.fileSize)\<close> tests the string: \<^verbatim>\<open>null\<close> and the empty string give no
  text.
\<close>

definition fileSizeFormatted :: "string option \<Rightarrow> string option" where
  "fileSizeFormatted fileSize =
     (if falsy fileSize then None
      else (let bytes = parseInt10 (the fileSize) in Some (format_size bytes)))"

definition progressMessage :: "bulk_operation \<Rightarrow> string" where
  "progressMessage data =
     (if op_status data = ''CREATED'' then ''Operation created, waiting to start...''
      else if op_status data = ''RUNNING'' then
        ''Processing '' @ op_objectCount data @ '' objects...''
      else if op_status data = ''COMPLETED'' then
        ''Completed! '' @ op_objectCount data @ '' objects exported.''
      else if op_status data = ''FAILED'' then
        ''Failed with error: ''
          @ (if falsy (op_errorCode data) then ''Unknown error'' else the (op_errorCode data))
      else if op_status data = ''CANCELED'' then ''Operation was canceled.''
      else ''Status: '' @ op_status data)"

definition getBulkOperationStatus_execute ::
    "lookup_client \<Rightarrow> string option \<Rightarrow> js_error + status_result" where
  "getBulkOperationStatus_execute client operationId =
     (case client (lookup_for operationId) of
        Inl e \<Rightarrow> Inl (Error (''Failed to check bulk operation status: '' @ error_message e))
      | Inr None \<Rightarrow>
          Inr (NotFound
            (if falsy operationId
             then ''No bulk operation currently running or recently completed.''
             else ''No bulk operation found with ID: '' @ the operationId))
      | Inr (Some data) \<Rightarrow>
          Inr (Found
            \<lparr>sf_id = op_id data,
             sf_status = op_status data,
             sf_type = op_type data,
             sf_createdAt = op_createdAt data,
             sf_completedAt = op_completedAt data,
             sf_objectCount = parseInt10 (op_objectCount data),
             sf_fileSize = fileSizeFormatted (op_fileSize data),
             sf_fileSizeBytes =
               (if falsy (op_fileSize data) then None
                else Some (parseInt10 (the (op_fileSize data)))),
             sf_url = op_url data,
             sf_partialDataUrl = op_partialDataUrl data,
             sf_errorCode = op_errorCode data,
             sf_progress = progressMessage data,
             sf_isComplete = (op_status data = ''COMPLETED''),
             sf_isFailed = (op_status data = ''FAILED''),
             sf_isRunning = (op_status data = ''RUNNING'' \<or> op_status data = ''CREATED'')\<rparr>))"

section \<open>Starting a bulk export (startBulkExport.ts)\<close>

text \<open>
  The input that the schema admits: \<^verbatim>\<open>type\<close> is one of five words, so the
  \<^verbatim>\<open>default\<close> branch of the \<^verbatim>\<open>switch\<close> is never taken.
\<close>

datatype export_type = Products | Orders | Customers | Inventory | Custom

record export_input =
  ex_type :: export_type
  ex_query :: "string option"
  ex_dateFrom :: "string option"
  ex_dateTo :: "string option"
  ex_customQuery :: "string option"
  ex_includeMetafields :: bool

text \<open>
  The query templates. The white space that lays a template out is written as single
  blanks; GraphQL does not distinguish the two.
\<close>

definition queryArg_of :: "string option \<Rightarrow> string" where
  "queryArg_of filter' = (if falsy filter' then [] else ''(query: '' @ dquote @ the filter' @ dquote @ '')'')"

definition buildProductsQuery :: "string option \<Rightarrow> bool \<Rightarrow> string" where
  "buildProductsQuery filter' includeMetafields =
     (let metafieldsFragment =
            (if includeMetafields
             then ''metafields(first: 20) { edges { node { namespace key value type }}}''
             else []);
          queryArg = queryArg_of filter'
      in ''{ products'' @ queryArg @
         '' { edges { node { id title handle status vendor productType tags createdAt updatedAt''
         @ '' variants { edges { node { id title sku price compareAtPrice inventoryQuantity barcode } } }''
         @ '' images { edges { node { url altText } } } '' @ metafieldsFragment @ '' } } } }'')"

definition buildOrdersQuery :: "string option \<Rightarrow> string option \<Rightarrow> string option \<Rightarrow> string" where
  "buildOrdersQuery dateFrom dateTo filter' =
     (let conditions =
            (if falsy dateFrom then [] else [''created_at:>='' @ the dateFrom])
            @ (if falsy dateTo then [] else [''created_at:<='' @ the dateTo])
            @ (if falsy filter' then [] else [the filter']);
          queryArg =
            (if length conditions > 0
             then ''(query: '' @ dquote @ join '' AND '' conditions @ dquote @ '')''
             else [])
      in ''{ orders'' @ queryArg @
         '' { edges { node { id name createdAt updatedAt displayFinancialStatus displayFulfillmentStatus''
         @ '' totalPriceSet { shopMoney { amount currencyCode } }''
         @ '' customer { id email firstName lastName }''
         @ '' shippingAddress { address1 city province country zip }''
         @ '' lineItems { edges { node { title quantity sku originalUnitPriceSet { shopMoney { amount } } } } }''
         @ '' } } } }'')"

definition buildCustomersQuery :: "string option \<Rightarrow> string" where
  "buildCustomersQuery filter' =
     (let queryArg = queryArg_of filter'
      in ''{ customers'' @ queryArg @
         '' { edges { node { id email firstName lastName phone createdAt updatedAt ordersCount''
         @ '' totalSpentV2 { amount currencyCode }''
         @ '' defaultAddress { address1 city province country zip } tags } } } }'')"

definition buildInventoryQuery :: string where
  "buildInventoryQuery =
     ''{ inventoryItems { edges { node { id sku tracked''
     @ '' inventoryLevels { edges { node { id available location { id name } } } }''
     @ '' variant { id title product { id title } } } } } }''"

text \<open>What the mutation \<^verbatim>\<open>bulkOperationRunQuery\<close> returns.\<close>

record user_error =
  ue_field :: "string list"
  ue_message :: string

record started_operation =
  so_id :: string
  so_status :: string
  so_createdAt :: string

record run_query_payload =
  bulkOperation :: "started_operation option"
  userErrors :: "user_error list"

type_synonym mutation_client = "string \<Rightarrow> js_error + run_query_payload"

record export_started =
  es_operationId :: string
  es_status :: string
  es_createdAt :: string
  es_exportType :: export_type
  es_message :: string

text \<open>The body of the \<^verbatim>\<open>try\<close> block: every \<^verbatim>\<open>throw\<close> in it is an \<open>Inl\<close>.\<close>

definition bulkQuery_of :: "export_input \<Rightarrow> js_error + string" where
  "bulkQuery_of input =
     (case ex_type input of
        Products \<Rightarrow> Inr (buildProductsQuery (ex_query input) (ex_includeMetafields input))
      | Orders \<Rightarrow> Inr (buildOrdersQuery (ex_dateFrom input) (ex_dateTo input) (ex_query input))
      | Customers \<Rightarrow> Inr (buildCustomersQuery (ex_query input))
      | Inventory \<Rightarrow> Inr buildInventoryQuery
      | Custom \<Rightarrow>
          if falsy (ex_customQuery input)
          then Inl (Error (''customQuery is required when type is '' @ squote @ ''custom'' @ squote))
          else Inr (the (ex_customQuery input)))"

definition startBulkExport_try :: "mutation_client \<Rightarrow> export_input \<Rightarrow> js_error + export_started" where
  "startBulkExport_try client input =
     (case bulkQuery_of input of
        Inl e \<Rightarrow> Inl e
      | Inr bulkQuery \<Rightarrow>
          (case client bulkQuery of
             Inl e \<Rightarrow> Inl e
           | Inr payload \<Rightarrow>
               if length (userErrors payload) > 0 then
                 Inl (Error (''Failed to start bulk export: ''
                        @ join '', '' (map ue_message (userErrors payload))))
               else
                 (case bulkOperation payload of
                    None \<Rightarrow> Inl (Error ''Bulk operation was not created'')
                  | Some operation \<Rightarrow>
                      Inr \<lparr>es_operationId = so_id operation,
                           es_status = so_status operation,
                           es_createdAt = so_createdAt operation,
                           es_exportType = ex_type input,
                           es_message = ''Bulk export started. Use get-bulk-operation-status to check progress, then get-bulk-operation-results when complete.''\<rparr>)))"

text \<open>
  \<^verbatim>\<open>execute\<close>: the \<^verbatim>\<open>catch\<close> block wraps every exception of the \<^verbatim>\<open>try\<close> block,
  also the one the block itself throws for user errors, in a new error with the prefix.
\<close>

definition startBulkExport_execute :: "mutation_client \<Rightarrow> export_input \<Rightarrow> js_error + export_started" where
  "startBulkExport_execute client input =
     (case startBulkExport_try client input of
        Inl e \<Rightarrow> Inl (Error (''Failed to start bulk export: '' @ error_message e))
      | Inr started \<Rightarrow> Inr started)"

text \<open>
  The text of user errors as the specification words it, field and message of each, in
  the form the product tools of the repository use.
\<close>

definition spec_field_message_pairs :: "user_error list \<Rightarrow> string" where
  "spec_field_message_pairs errs =
     join '', '' (map (\<lambda>e. join ''.'' (ue_field e) @ '': '' @ ue_message e) errs)"

section \<open>Results of a bulk operation (getBulkOperationResults.ts)\<close>

datatype result_format = FormatSummary | FormatSample | FormatFull

definition MAX_FULL_OBJECTS :: nat where
  "MAX_FULL_OBJECTS = 1000"

text \<open>
  The input after the schema: \<^verbatim>\<open>format\<close> and \<^verbatim>\<open>sampleSize\<close> have their defaults
  filled in. The sample size is taken as an integer.
\<close>

record results_input =
  ri_operationId :: "string option"
  ri_format :: result_format
  ri_sampleSize :: int

record summary_result =
  sm_operationId :: string
  sm_totalObjects :: js_int
  sm_fileSize :: "string option"
  sm_fileSizeBytes :: "js_int option"
  sm_downloadUrl :: string
  sm_completedAt :: "string option"
  sm_expiresAt :: "string option"

record 'j sample_result =
  sp_operationId :: string
  sp_sampleSize :: nat
  sp_totalObjects :: js_int
  sp_sample :: "'j list"
  sp_downloadUrl :: string
  sp_expiresAt :: "string option"

record 'j full_result =
  fl_operationId :: string
  fl_objectCount :: nat
  fl_totalObjects :: js_int
  fl_truncated :: bool
  fl_data :: "'j list"
  fl_downloadUrl :: string
  fl_expiresAt :: "string option"
  fl_note :: "string option"

text \<open>
  The objects \<^verbatim>\<open>execute\<close> returns. The first three carry \<^verbatim>\<open>success: false\<close> with
  the error text (then the operation id, the status and the error code where the source
  gives them); the others carry \<^verbatim>\<open>success: true\<close>.
\<close>

datatype 'j results =
    NoOperation string
  | NotCompleted string string string "string option"
  | NoDownloadUrl string string string
  | SummaryResult summary_result
  | SampleResult "'j sample_result"
  | FullResult "'j full_result"

text \<open>\<^verbatim>\<open>if (fileSize)\<close> on \<^verbatim>\<open>number | null\<close>: false for \<^verbatim>\<open>null\<close>, \<^verbatim>\<open>NaN\<close> and 0.\<close>

definition number_truthy :: "js_int option \<Rightarrow> bool" where
  "number_truthy v = (case v of Some (Some b) \<Rightarrow> b \<noteq> 0 | _ \<Rightarrow> False)"

definition fileSizeFormatted_results :: "js_int option \<Rightarrow> string option" where
  "fileSizeFormatted_results fileSize =
     (if number_truthy fileSize then Some (format_size (the fileSize)) else None)"

text \<open>
  \<^verbatim>\<open>String.prototype.trim\<close>, which drops the white space at both ends, and
  \<^verbatim>\<open>split("\n")\<close>, which gives one (empty) line for the empty text.
\<close>

definition trim :: "string \<Rightarrow> string" where
  "trim s = rev (dropWhile is_space (rev (dropWhile is_space s)))"

definition newline :: char where
  "newline = CHR 0x0A"

fun split_lines :: "string \<Rightarrow> string list" where
  "split_lines [] = [[]]"
| "split_lines (c # cs) =
     (if c = newline then [] # split_lines cs
      else (case split_lines cs of
              [] \<Rightarrow> [[c]]
            | l # ls \<Rightarrow> (c # l) # ls))"

text \<open>
  The loop \<^verbatim>\<open>for (let i = 0; i < limit; i++)\<close>: a line that \<^verbatim>\<open>JSON.parse\<close> reads
  is pushed, a line on which it throws is skipped. \<open>parse\<close> is \<^verbatim>\<open>JSON.parse\<close>,
  \<open>None\<close> where it throws; beyond the last line \<^verbatim>\<open>lines[i]\<close> is \<^verbatim>\<open>undefined\<close>,
  on which it throws too.
\<close>

function parse_loop ::
    "(string \<Rightarrow> 'j option) \<Rightarrow> string list \<Rightarrow> int \<Rightarrow> nat \<Rightarrow> 'j list \<Rightarrow> 'j list" where
  "parse_loop parse lines limit i objects =
     (if int i < limit then
        (case (if i < length lines then parse (lines ! i) else None) of
           Some parsed \<Rightarrow> parse_loop parse lines limit (i + 1) (objects @ [parsed])
         | None \<Rightarrow> parse_loop parse lines limit (i + 1) objects)
      else objects)"
  by pat_completeness auto
termination
  by (relation "measure (\<lambda>(parse, lines, limit, i, objects). nat (limit - int i))") auto

declare parse_loop.simps [simp del]

text \<open>
  The expiry: \<^verbatim>\<open>null\<close> when \<^verbatim>\<open>completedAt\<close> is \<^verbatim>\<open>null\<close> or empty, else the
  date seven days later as \<^verbatim>\<open>toISOString\<close> prints it. \<open>plus7days\<close> stands for
  \<^verbatim>\<open>new Date\<close>, \<^verbatim>\<open>setDate\<close> and \<^verbatim>\<open>toISOString\<close>; on a text that is not a date
  \<^verbatim>\<open>toISOString\<close> throws a \<^verbatim>\<open>RangeError\<close>.
\<close>

definition expiry ::
    "(string \<Rightarrow> js_error + string) \<Rightarrow> string option \<Rightarrow> js_error + string option" where
  "expiry plus7days completedAt =
     (if falsy completedAt then Inr None
      else (case plus7days (the completedAt) of
              Inl e \<Rightarrow> Inl e
            | Inr date \<Rightarrow> Inr (Some date)))"

text \<open>
  The body of the \<^verbatim>\<open>try\<close> block. The collaborators are parameters: the GraphQL
  client, \<open>fetch\<close> for the result file, \<open>parse\<close> for \<^verbatim>\<open>JSON.parse\<close>, and
  \<open>plus7days\<close> for the date arithmetic. The expiry is computed, and may throw,
  before the format is looked at and before the file is fetched.
\<close>

definition getBulkOperationResults_try ::
    "lookup_client \<Rightarrow> (string \<Rightarrow> js_error + response) \<Rightarrow> (string \<Rightarrow> 'j option) \<Rightarrow>
     (string \<Rightarrow> js_error + string) \<Rightarrow> results_input \<Rightarrow> js_error + 'j results" where
  "getBulkOperationResults_try client fetch parse plus7days input =
     (case client (lookup_for (ri_operationId input)) of
        Inl e \<Rightarrow> Inl e
      | Inr None \<Rightarrow>
          Inr (NoOperation
            (if falsy (ri_operationId input) then ''No bulk operation found.''
             else ''No bulk operation found with ID: '' @ the (ri_operationId input)))
      | Inr (Some operationData) \<Rightarrow>
          if op_status operationData \<noteq> ''COMPLETED'' then
            Inr (NotCompleted
              (''Operation is not completed. Current status: '' @ op_status operationData)
              (op_id operationData) (op_status operationData) (op_errorCode operationData))
          else if falsy (op_url operationData) then
            Inr (NoDownloadUrl
              ''Operation completed but no download URL available. The results may have expired (7 day limit).''
              (op_id operationData) (op_status operationData))
          else
            (let totalObjects = parseInt10 (op_objectCount operationData);
                 fileSize =
                   (if falsy (op_fileSize operationData) then None
                    else Some (parseInt10 (the (op_fileSize operationData))));
                 downloadUrl = the (op_url operationData)
             in case expiry plus7days (op_completedAt operationData) of
                  Inl e \<Rightarrow> Inl e
                | Inr expiresAt \<Rightarrow>
                    if ri_format input = FormatSummary then
                      Inr (SummaryResult
                        \<lparr>sm_operationId = op_id operationData,
                         sm_totalObjects = totalObjects,
                         sm_fileSize = fileSizeFormatted_results fileSize,
                         sm_fileSizeBytes = fileSize,
                         sm_downloadUrl = downloadUrl,
                         sm_completedAt = op_completedAt operationData,
                         sm_expiresAt = expiresAt\<rparr>)
                    else
                      (case fetch downloadUrl of
                         Inl e \<Rightarrow> Inl e
                       | Inr response \<Rightarrow>
                           if \<not> ok response then
                             Inl (Error (''Failed to download results: ''
                                    @ string_of_nat (status response) @ '' ''
                                    @ statusText response))
                           else
                             (let lines = split_lines (trim (body response));
                                  limit =
                                    (if ri_format input = FormatSample
                                     then min (ri_sampleSize input) (int (length lines))
                                     else min (int MAX_FULL_OBJECTS) (int (length lines)));
                                  objects = parse_loop parse lines limit 0 []
                              in if ri_format input = FormatSample then
                                   Inr (SampleResult
                                     \<lparr>sp_operationId = op_id operationData,
                                      sp_sampleSize = length objects,
                                      sp_totalObjects = totalObjects,
                                      sp_sample = objects,
                                      sp_downloadUrl = downloadUrl,
                                      sp_expiresAt = expiresAt\<rparr>)
                                 else
                                   Inr (FullResult
                                     \<lparr>fl_operationId = op_id operationData,
                                      fl_objectCount = length objects,
                                      fl_totalObjects = totalObjects,
                                      fl_truncated = js_gt totalObjects (int MAX_FULL_OBJECTS),
                                      fl_data = objects,
                                      fl_downloadUrl = downloadUrl,
                                      fl_expiresAt = expiresAt,
                                      fl_note =
                                        (if js_gt totalObjects (int MAX_FULL_OBJECTS)
                                         then Some (''Results truncated to ''
                                                @ string_of_nat MAX_FULL_OBJECTS
                                                @ '' objects. Download the full JSONL file for complete data.'')
                                         else None)\<rparr>)))))"

definition getBulkOperationResults_execute ::
    "lookup_client \<Rightarrow> (string \<Rightarrow> js_error + response) \<Rightarrow> (string \<Rightarrow> 'j option) \<Rightarrow>
     (string \<Rightarrow> js_error + string) \<Rightarrow> results_input \<Rightarrow> js_error + 'j results" where
  "getBulkOperationResults_execute client fetch parse plus7days input =
     (case getBulkOperationResults_try client fetch parse plus7days input of
        Inl e \<Rightarrow> Inl (Error (''Failed to get bulk operation results: '' @ error_message e))
      | Inr r \<Rightarrow> Inr r)"

text \<open>The invariant of the server: once the promise is settled, the port is released.\<close>

definition closed_when_settled :: "callback_server \<Rightarrow> bool" where
  "closed_when_settled s = (settled s \<noteq> Pending \<longrightarrow> \<not> listening s)"

section \<open>Sample data and the wording of the specification\<close>

text \<open>Sample data for the concrete instances below.\<close>

definition token_a :: TokenData where
  "token_a = \<lparr>access_token = ''shpat_a'', scope = ''read_products'',
     obtained_at = ''2024-01-01T00:00:00.000Z''\<rparr>"

definition token_b :: TokenData where
  "token_b = \<lparr>access_token = ''shpat_b'', scope = ''read_orders'',
     obtained_at = ''2024-02-01T00:00:00.000Z''\<rparr>"

definition disk_absent :: disk where
  "disk_absent = \<lparr>token_dir_exists = False, token_file = None\<rparr>"

definition disk_corrupted :: disk where
  "disk_corrupted = \<lparr>token_dir_exists = True, token_file = Some (Corrupted ''{not json'')\<rparr>"

definition disk_a :: disk where
  "disk_a = \<lparr>token_dir_exists = True,
     token_file = Some (Json [''a.myshopify.com'' \<mapsto> token_a])\<rparr>"

definition req_favicon :: http_request where
  "req_favicon = \<lparr>pathname = ''/favicon.ico'', searchParams = []\<rparr>"

definition req_valid :: http_request where
  "req_valid = \<lparr>pathname = ''/callback'',
     searchParams = [(''code'', ''c0de''), (''shop'', ''a.myshopify.com''), (''state'', ''5f2a'')]\<rparr>"

definition req_forged :: http_request where
  "req_forged = \<lparr>pathname = ''/callback'',
     searchParams = [(''code'', ''c0de''), (''shop'', ''a.myshopify.com''), (''state'', ''0000'')]\<rparr>"


definition req_no_code :: http_request where
  "req_no_code = \<lparr>pathname = ''/callback'',
     searchParams = [(''shop'', ''a.myshopify.com''), (''state'', ''5f2a'')]\<rparr>"

definition token_endpoint_ok :: "http_post \<Rightarrow> js_error + response" where
  "token_endpoint_ok p = Inr \<lparr>status = 200, statusText = ''OK'', body = ''{token}''\<rparr>"

definition read_token_json :: "string \<Rightarrow> js_error + json" where
  "read_token_json s =
     (if s = ''{token}'' then
        Inr (JObject [(''access_token'', JString ''shpat_a''),
                      (''scope'', JString ''read_products'')])
      else if s = ''null'' then Inr JNull
      else if s = ''{}'' then Inr (JObject [])
      else Inl (SyntaxError (''Unexpected token in JSON: '' @ s)))"

definition exchanged_a :: exchanged_token where
  "exchanged_a =
     \<lparr>got_access_token = Some (JString ''shpat_a''),
      got_scope = Some (JString ''read_products''),
      got_obtained_at = ''2024-01-01T00:00:00.000Z''\<rparr>"

definition env_sample :: "http_request list \<Rightarrow> oauth_env" where
  "env_sample reqs =
     \<lparr>nonce = ''5f2a'', listen_error = None, incoming = reqs, open_error = None,
      fetch_token = token_endpoint_ok, parse_json = read_token_json,
      clock = ''2024-01-01T00:00:00.000Z'', save_error = (\<lambda>domain tokenData. None)\<rparr>"

definition token_endpoint_html :: "http_post \<Rightarrow> js_error + response" where
  "token_endpoint_html p = Inr \<lparr>status = 200, statusText = ''OK'', body = ''<html>''\<rparr>"

definition token_endpoint_null :: "http_post \<Rightarrow> js_error + response" where
  "token_endpoint_null p = Inr \<lparr>status = 200, statusText = ''OK'', body = ''null''\<rparr>"

definition token_endpoint_empty :: "http_post \<Rightarrow> js_error + response" where
  "token_endpoint_empty p = Inr \<lparr>status = 200, statusText = ''OK'', body = ''{}''\<rparr>"

definition token_endpoint_denied :: "http_post \<Rightarrow> js_error + response" where
  "token_endpoint_denied p =
     Inr \<lparr>status = 401, statusText = ''Unauthorized'', body = ''invalid_request''\<rparr>"

definition token_endpoint_down :: "http_post \<Rightarrow> js_error + response" where
  "token_endpoint_down p = Inl (FetchError ''fetch failed'')"

definition status_client :: "string \<Rightarrow> lookup_client" where
  "status_client fileSize q =
     Inr (Some \<lparr>op_id = ''gid://shopify/BulkOperation/1'', op_status = ''COMPLETED'',
       op_type = ''QUERY'', op_createdAt = ''2024-01-01T00:00:00Z'',
       op_completedAt = Some ''2024-01-01T00:10:00Z'', op_objectCount = ''1500'',
       op_fileSize = Some fileSize, op_url = Some ''https://storage.example/result.jsonl'',
       op_partialDataUrl = None, op_errorCode = None, op_query = None\<rparr>)"

text \<open>
  The size text as the specification words it: bytes below 1024, KB below 1,048,576, MB
  otherwise.
\<close>

definition spec_size_text :: "nat \<Rightarrow> string" where
  "spec_size_text b =
     (if b < 1024 then string_of_nat b @ '' bytes''
      else if b < 1048576 then toFixed2 b 1024 @ '' KB''
      else toFixed2 b 1048576 @ '' MB'')"

definition input_products :: export_input where
  "input_products =
     \<lparr>ex_type = Products, ex_query = Some ''status:active'', ex_dateFrom = None,
      ex_dateTo = None, ex_customQuery = None, ex_includeMetafields = False\<rparr>"

definition errors_on_query :: "user_error list" where
  "errors_on_query =
     [\<lparr>ue_field = [''query''], ue_message = ''already running''\<rparr>,
      \<lparr>ue_field = [''query'', ''0''], ue_message = ''invalid''\<rparr>]"

definition errors_on_other :: "user_error list" where
  "errors_on_other =
     [\<lparr>ue_field = [''base''], ue_message = ''already running''\<rparr>,
      \<lparr>ue_field = [], ue_message = ''invalid''\<rparr>]"

definition client_rejecting :: "user_error list \<Rightarrow> mutation_client" where
  "client_rejecting errs q = Inr \<lparr>bulkOperation = None, userErrors = errs\<rparr>"

text \<open>A result file of the given lines, each ended by a line feed.\<close>

definition jsonl :: "string list \<Rightarrow> string" where
  "jsonl ls = join [newline] ls @ [newline]"

definition read_line :: "string \<Rightarrow> string option" where
  "read_line l = (if l \<noteq> [] \<and> hd l = CHR ''{'' \<and> last l = CHR ''}'' then Some l else None)"

definition results_client :: "string \<Rightarrow> lookup_client" where
  "results_client objectCount q =
     Inr (Some \<lparr>op_id = ''gid://shopify/BulkOperation/1'', op_status = ''COMPLETED'',
       op_type = ''QUERY'', op_createdAt = ''2024-01-01T00:00:00Z'',
       op_completedAt = Some ''2024-01-01T00:10:00Z'', op_objectCount = objectCount,
       op_fileSize = Some ''4500'', op_url = Some ''https://storage.example/result.jsonl'',
       op_partialDataUrl = None, op_errorCode = None, op_query = None\<rparr>)"

definition fetch_file :: "string \<Rightarrow> string \<Rightarrow> js_error + response" where
  "fetch_file content u = Inr \<lparr>status = 200, statusText = ''OK'', body = content\<rparr>"

definition plus7days_sample :: "string \<Rightarrow> js_error + string" where
  "plus7days_sample completedAt =
     (if completedAt = ''2024-01-01T00:10:00Z'' then Inr ''2024-01-08T00:10:00.000Z''
      else Inl (RangeError ''Invalid time value''))"

definition results_client_undated :: "string \<Rightarrow> lookup_client" where
  "results_client_undated completedAt q =
     Inr (Some \<lparr>op_id = ''gid://shopify/BulkOperation/1'', op_status = ''COMPLETED'',
       op_type = ''QUERY'', op_createdAt = ''2024-01-01T00:00:00Z'',
       op_completedAt = Some completedAt, op_objectCount = ''1500'',
       op_fileSize = Some ''4500'', op_url = Some ''https://storage.example/result.jsonl'',
       op_partialDataUrl = None, op_errorCode = None, op_query = None\<rparr>)"

definition full_input :: results_input where
  "full_input = \<lparr>ri_operationId = None, ri_format = FormatFull, ri_sampleSize = 10\<rparr>"

text \<open>The objects and the flag of a result in the full format.\<close>

definition full_count :: "js_error + 'j results \<Rightarrow> nat option" where
  "full_count res = (case res of Inr (FullResult r) \<Rightarrow> Some (length (fl_data r)) | _ \<Rightarrow> None)"

definition full_truncated :: "js_error + 'j results \<Rightarrow> bool option" where
  "full_truncated res = (case res of Inr (FullResult r) \<Rightarrow> Some (fl_truncated r) | _ \<Rightarrow> None)"

section \<open>Properties of the credential store\<close>

lemma token_file_saveToken:
  "token_file (saveToken domain r d) = Some (Json (set_property (stored d) domain r))"
  by (simp add: saveToken_def stored_def JSON_parse_store_def Let_def
      split: option.splits file_content.splits)

lemma stored_saveToken: "stored (saveToken domain r d) = set_property (stored d) domain r"
  by (simp add: stored_def token_file_saveToken)

lemma token_dir_saveToken: "token_dir_exists (saveToken domain r d)"
  by (simp add: saveToken_def Let_def)

lemma set_property_twice:
  "set_property (set_property tokens name v) name v = set_property tokens name v"
  by (auto simp add: set_property_def)

lemma saveToken_twice: "saveToken domain r (saveToken domain r d) = saveToken domain r d"
  by (simp add: saveToken_def JSON_parse_store_def Let_def set_property_twice
      split: option.splits file_content.splits)

lemma loadToken_stored:
  "token_file d = Some (Json tokens) \<Longrightarrow>
   loadToken domain d = Inr (or_null (get_property tokens domain))"
  by (simp add: loadToken_def JSON_parse_store_def)

text \<open>
  For every domain other than \<^verbatim>\<open>__proto__\<close> the store behaves as the dictionary it is
  meant to be: what is saved is loaded, on every disk, and the other entries stay.
\<close>

lemma saveToken_loadToken_roundtrip:
  assumes "domain \<noteq> ''__proto__''"
  shows "loadToken domain (saveToken domain r d) = Inr (Loaded r)"
  using assms
  by (simp add: loadToken_def token_file_saveToken JSON_parse_store_def set_property_def
      get_property_def or_null_def)

lemma saveToken_upsert:
  assumes "domain \<noteq> ''__proto__''"
  shows "token_file (saveToken domain r d) = Some (Json ((stored d)(domain \<mapsto> r)))"
    and "other \<noteq> domain \<Longrightarrow>
         loadToken other (saveToken domain r d) = Inr (or_null (get_property (stored d) other))"
  using assms
  by (simp_all add: loadToken_def token_file_saveToken JSON_parse_store_def set_property_def
      get_property_def)

lemma saveToken_corrupted:
  assumes "domain \<noteq> ''__proto__''" and "token_file d = Some (Corrupted raw)"
  shows "token_file (saveToken domain r d) = Some (Json [domain \<mapsto> r])"
  using assms by (simp add: token_file_saveToken set_property_def stored_def)

lemma loadToken_not_found:
  "token_file d = None \<Longrightarrow> loadToken domain d = Inr Null"
  "token_file d = Some (Corrupted raw) \<Longrightarrow> loadToken domain d = Inr Null"
  "token_file d = Some (Json tokens) \<Longrightarrow> tokens domain = None \<Longrightarrow>
   domain \<notin> set Object_prototype_names \<Longrightarrow> loadToken domain d = Inr Null"
  by (simp_all add: loadToken_def JSON_parse_store_def get_property_def or_null_def)

lemma loadToken_never_throws: "\<exists>v. loadToken domain d = Inr v"
  by (simp add: loadToken_def JSON_parse_store_def split: option.splits file_content.splits)

text \<open>
  C1. Saving under the domain \<^verbatim>\<open>__proto__\<close> on a disk without the file writes a store
  without entries, and loading that domain then returns the prototype object, not the
  record that was saved.
\<close>

theorem saveToken_loadToken_proto:
  "token_file (saveToken ''__proto__'' token_a disk_absent) = Some (Json Map.empty) \<and>
   loadToken ''__proto__'' (saveToken ''__proto__'' token_a disk_absent)
     = Inr (Prototype_member ''__proto__'')"
  by (simp add: loadToken_def token_file_saveToken JSON_parse_store_def set_property_def
      get_property_def or_null_def stored_def disk_absent_def Object_prototype_names_def)

text \<open>
  C4. Saving under the domain \<^verbatim>\<open>__proto__\<close> rewrites a well-formed store as it was,
  with no entry for that domain, and turns an unparseable file into a store without
  entries.
\<close>

theorem saveToken_proto_no_entry:
  "token_file (saveToken ''__proto__'' token_b disk_a)
     = Some (Json [''a.myshopify.com'' \<mapsto> token_a]) \<and>
   token_file (saveToken ''__proto__'' token_b disk_corrupted) = Some (Json Map.empty)"
  by (simp add: token_file_saveToken set_property_def stored_def disk_a_def
      disk_corrupted_def)

text \<open>
  C5. On a store that holds no entry for the domain \<^verbatim>\<open>constructor\<close>, \<^verbatim>\<open>loadToken\<close>
  returns the inherited member of that name, not \<^verbatim>\<open>null\<close>.
\<close>

theorem loadToken_constructor:
  "token_file disk_a = Some (Json [''a.myshopify.com'' \<mapsto> token_a]) \<and>
   [''a.myshopify.com'' \<mapsto> token_a] ''constructor'' = None \<and>
   loadToken ''constructor'' disk_a = Inr (Prototype_member ''constructor'')"
  by (simp add: loadToken_def JSON_parse_store_def get_property_def or_null_def disk_a_def
      Object_prototype_names_def)

section \<open>Properties of the callback server and the flow\<close>

lemma reject_not_Pending: "reject e p \<noteq> Pending"
  by (cases p) (simp_all add: reject_def)

lemma resolve_not_Pending: "resolve v p \<noteq> Pending"
  by (cases p) (simp_all add: resolve_def)

lemma reject_settled: "p \<noteq> Pending \<Longrightarrow> reject e p = p"
  by (cases p) (simp_all add: reject_def)

lemma resolve_settled: "p \<noteq> Pending \<Longrightarrow> resolve v p = p"
  by (cases p) (simp_all add: resolve_def)

lemma handle_request_other_path:
  "pathname req \<noteq> ''/callback'' \<Longrightarrow>
   handle_request e req s = s\<lparr>replies := replies s @ [\<lparr>reply_status = 404, reply_body = ''Not found''\<rparr>]\<rparr>"
  by (simp add: handle_request_def respond_def)

lemma handle_request_invalid_state:
  "pathname req = ''/callback'' \<Longrightarrow> searchParams_get req ''state'' \<noteq> Some e \<Longrightarrow>
   handle_request e req s =
     s\<lparr>replies := replies s @
          [\<lparr>reply_status = 400, reply_body = ''Invalid state parameter. Possible CSRF attack.''\<rparr>],
       listening := False,
       settled := reject (Error ''Invalid state parameter'') (settled s)\<rparr>"
  by (simp add: handle_request_def respond_def server_close_def Let_def)

lemma handle_request_missing:
  "pathname req = ''/callback'' \<Longrightarrow> searchParams_get req ''state'' = Some e \<Longrightarrow>
   falsy (searchParams_get req ''code'') \<or> falsy (searchParams_get req ''shop'') \<Longrightarrow>
   handle_request e req s =
     s\<lparr>replies := replies s @
          [\<lparr>reply_status = 400, reply_body = ''Missing code or shop parameter''\<rparr>],
       listening := False,
       settled := reject (Error ''Missing code or shop parameter'') (settled s)\<rparr>"
  by (simp add: handle_request_def respond_def server_close_def Let_def)

lemma handle_request_success:
  "pathname req = ''/callback'' \<Longrightarrow> searchParams_get req ''state'' = Some e \<Longrightarrow>
   searchParams_get req ''code'' = Some c \<Longrightarrow> c \<noteq> [] \<Longrightarrow>
   searchParams_get req ''shop'' = Some sh \<Longrightarrow> sh \<noteq> [] \<Longrightarrow>
   handle_request e req s =
     s\<lparr>replies := replies s @ [\<lparr>reply_status = 200, reply_body = success_page\<rparr>],
       listening := False,
       settled := resolve (c, sh) (settled s)\<rparr>"
  by (simp add: handle_request_def respond_def server_close_def Let_def falsy_def)

lemma handle_request_callback:
  "pathname req = ''/callback'' \<Longrightarrow>
   \<not> listening (handle_request e req s) \<and> settled (handle_request e req s) \<noteq> Pending"
  by (simp add: handle_request_def respond_def server_close_def Let_def
      reject_not_Pending resolve_not_Pending)

lemma closed_when_settled_handle:
  "closed_when_settled s \<Longrightarrow> closed_when_settled (handle_request e req s)"
proof (cases "pathname req = ''/callback''")
  case True
  then show ?thesis
    using handle_request_callback [of req e s] by (simp add: closed_when_settled_def)
next
  case False
  assume "closed_when_settled s"
  with False show ?thesis
    by (simp add: handle_request_other_path closed_when_settled_def)
qed

lemma closed_when_settled_deliver:
  "closed_when_settled s \<Longrightarrow> closed_when_settled (deliver e ev s)"
proof (cases ev)
  case (Request req)
  assume "closed_when_settled s"
  then show ?thesis
    by (simp add: Request deliver_def closed_when_settled_handle)
next
  case Timeout
  then show ?thesis
    by (simp add: deliver_def on_timeout_def server_close_def closed_when_settled_def Let_def)
qed

lemma closed_when_settled_run:
  "closed_when_settled s \<Longrightarrow> closed_when_settled (run_events e evs s)"
  by (induction evs arbitrary: s) (simp_all add: closed_when_settled_deliver)

lemma closed_when_settled_listen: "closed_when_settled (on_listen le)"
  by (cases le) (simp_all add: on_listen_def closed_when_settled_def)

lemma run_events_append:
  "run_events e (xs @ ys) s = run_events e ys (run_events e xs s)"
  by (induction xs arbitrary: s) simp_all

text \<open>Once the promise is settled and the listener closed, both stay so; replies are only added.\<close>

lemma handle_request_replies:
  "\<exists>r. replies (handle_request e req s) = replies s @ [r]"
  by (simp add: handle_request_def respond_def server_close_def Let_def)

lemma deliver_after_settled:
  assumes "settled s \<noteq> Pending" and "\<not> listening s"
  shows "settled (deliver e ev s) = settled s \<and> \<not> listening (deliver e ev s) \<and>
         (\<exists>rs. replies (deliver e ev s) = replies s @ rs)"
proof (cases ev)
  case (Request req)
  have "settled (handle_request e req s) = settled s \<and> \<not> listening (handle_request e req s)"
    using assms
    by (simp add: handle_request_def respond_def server_close_def Let_def reject_settled
        resolve_settled)
  moreover have "\<exists>rs. replies (handle_request e req s) = replies s @ rs"
    using handle_request_replies [of e req s] by blast
  ultimately show ?thesis by (simp add: Request deliver_def)
next
  case Timeout
  then show ?thesis
    using assms by (simp add: deliver_def on_timeout_def server_close_def Let_def reject_settled)
qed

lemma run_events_after_settled:
  assumes "settled s \<noteq> Pending" and "\<not> listening s"
  shows "settled (run_events e evs s) = settled s \<and> \<not> listening (run_events e evs s) \<and>
         (\<exists>rs. replies (run_events e evs s) = replies s @ rs)"
  using assms
proof (induction evs arbitrary: s)
  case Nil
  then show ?case by simp
next
  case (Cons ev evs)
  let ?s' = "deliver e ev s"
  have step: "settled ?s' = settled s" "\<not> listening ?s'"
    and rs: "\<exists>rs. replies ?s' = replies s @ rs"
    using deliver_after_settled [OF Cons.prems, of e ev] by simp_all
  then have "settled (run_events e evs ?s') = settled ?s' \<and>
      \<not> listening (run_events e evs ?s') \<and>
      (\<exists>rs. replies (run_events e evs ?s') = replies ?s' @ rs)"
    using Cons.prems by (intro Cons.IH) simp_all
  with step rs show ?case by auto
qed

lemma run_events_other_paths:
  "\<forall>r \<in> set pre. pathname r \<noteq> ''/callback'' \<Longrightarrow>
   run_events e (map Request pre) s =
     s\<lparr>replies := replies s @ map (\<lambda>_. \<lparr>reply_status = 404, reply_body = ''Not found''\<rparr>) pre\<rparr>"
proof (induction pre arbitrary: s)
  case Nil
  then show ?case by simp
next
  case (Cons r pre)
  have step: "deliver e (Request r) s =
      s\<lparr>replies := replies s @ [\<lparr>reply_status = 404, reply_body = ''Not found''\<rparr>]\<rparr>"
    using Cons.prems by (simp add: deliver_def handle_request_other_path)
  have "run_events e (map Request pre) (deliver e (Request r) s) =
      (deliver e (Request r) s)\<lparr>replies := replies (deliver e (Request r) s) @
         map (\<lambda>_. \<lparr>reply_status = 404, reply_body = ''Not found''\<rparr>) pre\<rparr>"
    using Cons.prems by (intro Cons.IH) simp
  then show ?case by (simp add: step)
qed

lemma on_timeout_final: "\<not> listening (on_timeout s) \<and> settled (on_timeout s) \<noteq> Pending"
  by (simp add: on_timeout_def server_close_def Let_def reject_not_Pending)

lemma startCallbackServer_final:
  "\<not> listening (startCallbackServer e le reqs) \<and> settled (startCallbackServer e le reqs) \<noteq> Pending"
  by (simp add: startCallbackServer_def run_events_append deliver_def on_timeout_final)

text \<open>
  The first request to \<^verbatim>\<open>/callback\<close> decides: the promise is what the handler makes
  of it on that request, whatever reaches the handler later.
\<close>

lemma startCallbackServer_first_callback:
  assumes "\<forall>r \<in> set pre. pathname r \<noteq> ''/callback''" and "pathname req = ''/callback''"
  shows "settled (startCallbackServer e None (pre @ req # post)) =
     settled (handle_request e req
       \<lparr>listening = True, settled = Pending,
        replies = map (\<lambda>_. \<lparr>reply_status = 404, reply_body = ''Not found''\<rparr>) pre\<rparr>) \<and>
     (\<exists>rs. replies (startCallbackServer e None (pre @ req # post)) =
        replies (handle_request e req
          \<lparr>listening = True, settled = Pending,
           replies = map (\<lambda>_. \<lparr>reply_status = 404, reply_body = ''Not found''\<rparr>) pre\<rparr>) @ rs)"
proof -
  let ?s0 = "on_listen None"
  let ?s1 = "\<lparr>listening = True, settled = Pending,
        replies = map (\<lambda>_. \<lparr>reply_status = 404, reply_body = ''Not found''\<rparr>) pre\<rparr>"
  have s1: "run_events e (map Request pre) ?s0 = ?s1"
    using assms(1) by (simp add: run_events_other_paths on_listen_def)
  let ?s2 = "handle_request e req ?s1"
  have fin: "settled ?s2 \<noteq> Pending" "\<not> listening ?s2"
    using handle_request_callback [OF assms(2), of e ?s1] by simp_all
  have "startCallbackServer e None (pre @ req # post) =
      run_events e (map Request post @ [Timeout]) (deliver e (Request req) ?s1)"
    by (simp add: startCallbackServer_def run_events_append s1)
  also have "deliver e (Request req) ?s1 = ?s2"
    by (simp add: deliver_def)
  finally have "startCallbackServer e None (pre @ req # post) =
      run_events e (map Request post @ [Timeout]) ?s2" .
  then show ?thesis
    using run_events_after_settled [OF fin, of e "map Request post @ [Timeout]"] by simp
qed

lemma startCallbackServer_no_callback:
  assumes "\<forall>r \<in> set reqs. pathname r \<noteq> ''/callback''"
  shows "startCallbackServer e None reqs =
     \<lparr>listening = False, settled = Rejected (Error ''Authorization timed out after 5 minutes''),
        replies = map (\<lambda>_. \<lparr>reply_status = 404, reply_body = ''Not found''\<rparr>) reqs\<rparr>"
  using assms
  by (simp add: startCallbackServer_def run_events_append run_events_other_paths on_listen_def
      deliver_def on_timeout_def server_close_def reject_def Let_def)

lemma runOAuthFlow_rejected:
  assumes "settled (startCallbackServer (nonce env) (listen_error env) (incoming env)) = Rejected err"
  shows "token_requests (runOAuthFlow env domain clientId clientSecret scopes) = [] \<and>
         saved (runOAuthFlow env domain clientId clientSecret scopes) = [] \<and>
         callback (runOAuthFlow env domain clientId clientSecret scopes) =
           startCallbackServer (nonce env) (listen_error env) (incoming env) \<and>
         outcome (runOAuthFlow env domain clientId clientSecret scopes) =
           Some (Inl (case open_error env of None \<Rightarrow> err | Some m \<Rightarrow> Error m))"
  using assms
  by (simp add: runOAuthFlow_def Let_def await_def split: option.splits)

text \<open>
  The flow always returns; after a matching callback it sends one request to the token
  endpoint and calls \<^verbatim>\<open>saveToken\<close> with the record it gets.
\<close>

lemma runOAuthFlow_returns:
  "outcome (runOAuthFlow env domain clientId clientSecret scopes) \<noteq> None"
proof -
  let ?srv = "startCallbackServer (nonce env) (listen_error env) (incoming env)"
  have "settled ?srv \<noteq> Pending"
    using startCallbackServer_final [of "nonce env" "listen_error env" "incoming env"] by simp
  then show ?thesis
    by (cases "settled ?srv")
       (simp_all add: runOAuthFlow_def Let_def await_def split: option.splits sum.splits prod.splits)
qed

lemma runOAuthFlow_resolved:
  assumes "open_error env = None"
    and "settled (startCallbackServer (nonce env) (listen_error env) (incoming env))
           = Resolved (code, shop)"
    and "exchangeCodeForToken (fetch_token env) (parse_json env) (clock env)
           domain clientId clientSecret code = Inr tokenData"
  shows "token_requests (runOAuthFlow env domain clientId clientSecret scopes)
           = [token_post domain clientId clientSecret code] \<and>
         saved (runOAuthFlow env domain clientId clientSecret scopes)
           = [(domain, tokenData)] \<and>
         outcome (runOAuthFlow env domain clientId clientSecret scopes)
           = Some (case save_error env domain tokenData of
                     None \<Rightarrow> Inr tokenData
                   | Some e \<Rightarrow> Inl e)"
  using assms by (simp add: runOAuthFlow_def Let_def await_def split: option.splits)

lemma exchangeCodeForToken_sample:
  "exchangeCodeForToken token_endpoint_ok read_token_json ''2024-01-01T00:00:00.000Z''
      ''a.myshopify.com'' ''id'' ''secret'' ''c0de'' = Inr exchanged_a"
  by (simp add: exchangeCodeForToken_def token_endpoint_ok_def read_token_json_def ok_def
      read_field_def field_value_def exchanged_a_def)

lemma runOAuthFlow_sample:
  "token_requests (runOAuthFlow (env_sample [req_favicon, req_valid])
       ''a.myshopify.com'' ''id'' ''secret'' None)
     = [token_post ''a.myshopify.com'' ''id'' ''secret'' ''c0de''] \<and>
   outcome (runOAuthFlow (env_sample [req_favicon, req_valid])
       ''a.myshopify.com'' ''id'' ''secret'' None) = Some (Inr exchanged_a) \<and>
   saved (runOAuthFlow (env_sample [req_favicon, req_valid])
       ''a.myshopify.com'' ''id'' ''secret'' None) = [(''a.myshopify.com'', exchanged_a)] \<and>
   as_TokenData exchanged_a = Some token_a \<and>
   loadToken ''a.myshopify.com'' (saveToken ''a.myshopify.com'' token_a disk_absent)
     = Inr (Loaded token_a)"
proof -
  have srv: "settled (startCallbackServer ''5f2a'' None [req_favicon, req_valid])
      = Resolved (''c0de'', ''a.myshopify.com'')"
    using startCallbackServer_first_callback
      [where pre = "[req_favicon]" and req = req_valid and post = "[]" and e = "''5f2a''"]
    by (simp add: req_favicon_def req_valid_def handle_request_def searchParams_get_def
        respond_def server_close_def resolve_def falsy_def Let_def)
  have typed: "as_TokenData exchanged_a = Some token_a"
    by (simp add: as_TokenData_def exchanged_a_def token_a_def)
  show ?thesis
    using runOAuthFlow_resolved
      [where env = "env_sample [req_favicon, req_valid]" and code = "''c0de''"
         and shop = "''a.myshopify.com''" and domain = "''a.myshopify.com''"
         and clientId = "''id''" and clientSecret = "''secret''" and tokenData = exchanged_a
         and scopes = None]
      srv exchangeCodeForToken_sample typed
    by (simp add: env_sample_def saveToken_loadToken_roundtrip)
qed

text \<open>
  The promise is pending as a request arrives exactly when the listener is bound and no
  earlier request went to \<^verbatim>\<open>/callback\<close>; the listener then still holds the port.
\<close>

lemma pending_before_callback:
  "settled (run_events e (map Request pre) (on_listen le)) = Pending \<longleftrightarrow>
     le = None \<and> (\<forall>r \<in> set pre. pathname r \<noteq> ''/callback'')"
proof
  assume pending: "settled (run_events e (map Request pre) (on_listen le)) = Pending"
  have bound: "le = None"
  proof (rule ccontr)
    assume "le \<noteq> None"
    then obtain m where "le = Some m" by auto
    then have "settled (on_listen le) \<noteq> Pending" "\<not> listening (on_listen le)"
      by (simp_all add: on_listen_def)
    then have "settled (run_events e (map Request pre) (on_listen le)) = settled (on_listen le)"
      using run_events_after_settled [of "on_listen le" e "map Request pre"] by simp
    with pending \<open>settled (on_listen le) \<noteq> Pending\<close> show False by simp
  qed
  have "\<forall>r \<in> set pre. pathname r \<noteq> ''/callback''"
  proof (rule ccontr)
    assume "\<not> (\<forall>r \<in> set pre. pathname r \<noteq> ''/callback'')"
    then have "\<exists>r \<in> set pre. pathname r = ''/callback''" by simp
    then obtain a r b where split: "pre = a @ r # b" and r: "pathname r = ''/callback''"
      by (auto dest: split_list)
    let ?s = "run_events e (map Request a) (on_listen le)"
    have after: "settled (handle_request e r ?s) \<noteq> Pending" "\<not> listening (handle_request e r ?s)"
      using handle_request_callback [OF r, of e ?s] by simp_all
    have "run_events e (map Request pre) (on_listen le) =
        run_events e (map Request b) (handle_request e r ?s)"
      by (simp add: split run_events_append deliver_def)
    then have "settled (run_events e (map Request pre) (on_listen le)) =
        settled (handle_request e r ?s)"
      using run_events_after_settled [OF after, of e "map Request b"] by simp
    with pending after(1) show False by simp
  qed
  with bound show "le = None \<and> (\<forall>r \<in> set pre. pathname r \<noteq> ''/callback'')" by simp
next
  assume "le = None \<and> (\<forall>r \<in> set pre. pathname r \<noteq> ''/callback'')"
  then show "settled (run_events e (map Request pre) (on_listen le)) = Pending"
    by (simp add: run_events_other_paths on_listen_def)
qed

text \<open>
  A request to \<^verbatim>\<open>/callback\<close> with a \<^verbatim>\<open>state\<close> other than the nonce, arriving after
  a matching callback has resolved the promise: it is answered with status 400, and the
  promise stays resolved, so that the flow sends its request to the token endpoint.
\<close>

theorem invalid_state_after_match_counterexample:
  "pathname req_forged = ''/callback'' \<and>
   searchParams_get req_forged ''state'' = Some ''0000'' \<and>
   nonce (env_sample [req_valid, req_forged]) = ''5f2a'' \<and>
   incoming (env_sample [req_valid, req_forged]) = [req_valid, req_forged] \<and>
   settled (startCallbackServer ''5f2a'' None [req_valid, req_forged])
     = Resolved (''c0de'', ''a.myshopify.com'') \<and>
   replies (startCallbackServer ''5f2a'' None [req_valid, req_forged]) ! 1
     = \<lparr>reply_status = 400,
        reply_body = ''Invalid state parameter. Possible CSRF attack.''\<rparr> \<and>
   token_requests (runOAuthFlow (env_sample [req_valid, req_forged])
       ''a.myshopify.com'' ''id'' ''secret'' None)
     = [token_post ''a.myshopify.com'' ''id'' ''secret'' ''c0de''] \<and>
   outcome (runOAuthFlow (env_sample [req_valid, req_forged])
       ''a.myshopify.com'' ''id'' ''secret'' None) = Some (Inr exchanged_a)"
proof -
  have srv: "startCallbackServer ''5f2a'' None [req_valid, req_forged] =
      \<lparr>listening = False, settled = Resolved (''c0de'', ''a.myshopify.com''),
       replies = [\<lparr>reply_status = 200, reply_body = success_page\<rparr>,
                  \<lparr>reply_status = 400,
                   reply_body = ''Invalid state parameter. Possible CSRF attack.''\<rparr>]\<rparr>"
    by (simp add: startCallbackServer_def on_listen_def deliver_def handle_request_def
        on_timeout_def req_valid_def req_forged_def searchParams_get_def respond_def
        server_close_def resolve_def reject_def falsy_def Let_def)
  have flow: "token_requests (runOAuthFlow (env_sample [req_valid, req_forged])
         ''a.myshopify.com'' ''id'' ''secret'' None)
       = [token_post ''a.myshopify.com'' ''id'' ''secret'' ''c0de''] \<and>
     outcome (runOAuthFlow (env_sample [req_valid, req_forged])
         ''a.myshopify.com'' ''id'' ''secret'' None) = Some (Inr exchanged_a)"
    using runOAuthFlow_resolved
      [where env = "env_sample [req_valid, req_forged]" and code = "''c0de''"
         and shop = "''a.myshopify.com''" and domain = "''a.myshopify.com''"
         and clientId = "''id''" and clientSecret = "''secret''" and tokenData = exchanged_a
         and scopes = None]
      srv exchangeCodeForToken_sample
    by (simp add: env_sample_def)
  have forged: "pathname req_forged = ''/callback'' \<and>
      searchParams_get req_forged ''state'' = Some ''0000''"
    by (simp add: req_forged_def searchParams_get_def)
  have env: "nonce (env_sample [req_valid, req_forged]) = ''5f2a'' \<and>
      incoming (env_sample [req_valid, req_forged]) = [req_valid, req_forged]"
    by (simp add: env_sample_def)
  show ?thesis
    using flow forged env by (simp add: srv)
qed

text \<open>
  C2 (amended). On every request to \<^verbatim>\<open>/callback\<close> whose \<^verbatim>\<open>state\<close> is not the nonce
  of the flow, or is missing, the handler answers with status 400, closes the listener and
  calls \<^verbatim>\<open>reject\<close> with the invalid-state error, in whatever state the server is.
  When the promise is still pending as the request arrives, that is when the listener was
  bound and no earlier request went to \<^verbatim>\<open>/callback\<close>, the listener, open until then, is
  closed by this request, the promise of \<^verbatim>\<open>startCallbackServer\<close> is rejected with the
  invalid-state error, and the flow sends no request to the token endpoint and does not
  call \<^verbatim>\<open>saveToken\<close>.
\<close>

theorem invalid_state_aborts_flow:
  assumes "pathname req = ''/callback''"
    and "searchParams_get req ''state'' \<noteq> Some (nonce env)"
  shows "handle_request (nonce env) req s =
           s\<lparr>replies := replies s @
                [\<lparr>reply_status = 400,
                  reply_body = ''Invalid state parameter. Possible CSRF attack.''\<rparr>],
             listening := False,
             settled := reject (Error ''Invalid state parameter'') (settled s)\<rparr> \<and>
         (listen_error env = None \<and> incoming env = pre @ req # post \<and>
          (\<forall>r \<in> set pre. pathname r \<noteq> ''/callback'') \<longrightarrow>
            listening (run_events (nonce env) (map Request pre) (on_listen None)) \<and>
            \<not> listening (run_events (nonce env) (map Request (pre @ [req])) (on_listen None)) \<and>
            settled (run_events (nonce env) (map Request (pre @ [req])) (on_listen None))
              = Rejected (Error ''Invalid state parameter'') \<and>
            settled (callback (runOAuthFlow env domain clientId clientSecret scopes))
              = Rejected (Error ''Invalid state parameter'') \<and>
            replies (callback (runOAuthFlow env domain clientId clientSecret scopes)) ! length pre
              = \<lparr>reply_status = 400,
                 reply_body = ''Invalid state parameter. Possible CSRF attack.''\<rparr> \<and>
            token_requests (runOAuthFlow env domain clientId clientSecret scopes) = [] \<and>
            saved (runOAuthFlow env domain clientId clientSecret scopes) = [] \<and>
            outcome (runOAuthFlow env domain clientId clientSecret scopes)
              = Some (Inl (case open_error env of
                             None \<Rightarrow> Error ''Invalid state parameter''
                           | Some m \<Rightarrow> Error m)))"
proof (intro conjI impI)
  show "handle_request (nonce env) req s =
      s\<lparr>replies := replies s @
           [\<lparr>reply_status = 400,
             reply_body = ''Invalid state parameter. Possible CSRF attack.''\<rparr>],
        listening := False,
        settled := reject (Error ''Invalid state parameter'') (settled s)\<rparr>"
    using assms by (simp add: handle_request_invalid_state)
next
  assume run: "listen_error env = None \<and> incoming env = pre @ req # post \<and>
      (\<forall>r \<in> set pre. pathname r \<noteq> ''/callback'')"
  let ?srv = "startCallbackServer (nonce env) (listen_error env) (incoming env)"
  let ?s1 = "\<lparr>listening = True, settled = Pending,
        replies = map (\<lambda>_. \<lparr>reply_status = 404, reply_body = ''Not found''\<rparr>) pre\<rparr>"
  let ?bad = "\<lparr>reply_status = 400,
        reply_body = ''Invalid state parameter. Possible CSRF attack.''\<rparr>"
  have before: "run_events (nonce env) (map Request pre) (on_listen None) = ?s1"
    using run by (simp add: run_events_other_paths on_listen_def)
  have handled: "handle_request (nonce env) req ?s1 =
      \<lparr>listening = False, settled = Rejected (Error ''Invalid state parameter''),
       replies = map (\<lambda>_. \<lparr>reply_status = 404, reply_body = ''Not found''\<rparr>) pre @ [?bad]\<rparr>"
    using assms by (simp add: handle_request_invalid_state reject_def)
  have after: "run_events (nonce env) (map Request (pre @ [req])) (on_listen None) =
      handle_request (nonce env) req ?s1"
    by (simp add: run_events_append before deliver_def)
  have first: "settled ?srv = settled (handle_request (nonce env) req ?s1)"
    "\<exists>rs. replies ?srv = replies (handle_request (nonce env) req ?s1) @ rs"
    using startCallbackServer_first_callback [of pre req "nonce env" post] assms(1) run
    by simp_all
  have rej: "settled ?srv = Rejected (Error ''Invalid state parameter'')"
    using first(1) by (simp add: handled)
  obtain rs where "replies ?srv =
      (map (\<lambda>_. \<lparr>reply_status = 404, reply_body = ''Not found''\<rparr>) pre @ [?bad]) @ rs"
    using first(2) by (auto simp add: handled)
  then have nth: "replies ?srv ! length pre = ?bad"
    by (simp add: nth_append)
  note flow = runOAuthFlow_rejected [OF rej, of domain clientId clientSecret scopes]
  show "listening (run_events (nonce env) (map Request pre) (on_listen None))"
    by (simp add: before)
  show "\<not> listening (run_events (nonce env) (map Request (pre @ [req])) (on_listen None))"
    by (simp only: after handled) simp
  show "settled (run_events (nonce env) (map Request (pre @ [req])) (on_listen None))
      = Rejected (Error ''Invalid state parameter'')"
    by (simp only: after handled) simp
  show "settled (callback (runOAuthFlow env domain clientId clientSecret scopes))
      = Rejected (Error ''Invalid state parameter'')"
    using flow rej by simp
  show "replies (callback (runOAuthFlow env domain clientId clientSecret scopes)) ! length pre
      = ?bad"
    using flow nth by simp
  show "token_requests (runOAuthFlow env domain clientId clientSecret scopes) = []"
    using flow by simp
  show "saved (runOAuthFlow env domain clientId clientSecret scopes) = []"
    using flow by simp
  show "outcome (runOAuthFlow env domain clientId clientSecret scopes)
      = Some (Inl (case open_error env of
                     None \<Rightarrow> Error ''Invalid state parameter''
                   | Some m \<Rightarrow> Error m))"
    using flow by simp
qed

theorem invalid_state_aborts_flow_witness:
  "pathname req_forged = ''/callback'' \<and>
   searchParams_get req_forged ''state'' = Some ''0000'' \<and>
   nonce (env_sample [req_favicon, req_forged, req_valid]) = ''5f2a'' \<and>
   listen_error (env_sample [req_favicon, req_forged, req_valid]) = None \<and>
   pathname req_favicon = ''/favicon.ico'' \<and>
   handle_request ''5f2a'' req_forged (on_listen None) =
     \<lparr>listening = False, settled = Rejected (Error ''Invalid state parameter''),
      replies = [\<lparr>reply_status = 400,
                  reply_body = ''Invalid state parameter. Possible CSRF attack.''\<rparr>]\<rparr> \<and>
   listening (run_events ''5f2a'' [Request req_favicon] (on_listen None)) \<and>
   \<not> listening (run_events ''5f2a'' [Request req_favicon, Request req_forged] (on_listen None)) \<and>
   settled (callback (runOAuthFlow (env_sample [req_favicon, req_forged, req_valid])
       ''a.myshopify.com'' ''id'' ''secret'' None))
     = Rejected (Error ''Invalid state parameter'') \<and>
   replies (callback (runOAuthFlow (env_sample [req_favicon, req_forged, req_valid])
       ''a.myshopify.com'' ''id'' ''secret'' None)) ! 1
     = \<lparr>reply_status = 400,
        reply_body = ''Invalid state parameter. Possible CSRF attack.''\<rparr> \<and>
   token_requests (runOAuthFlow (env_sample [req_favicon, req_forged, req_valid])
       ''a.myshopify.com'' ''id'' ''secret'' None) = [] \<and>
   saved (runOAuthFlow (env_sample [req_favicon, req_forged, req_valid])
       ''a.myshopify.com'' ''id'' ''secret'' None) = [] \<and>
   outcome (runOAuthFlow (env_sample [req_favicon, req_forged, req_valid])
       ''a.myshopify.com'' ''id'' ''secret'' None)
     = Some (Inl (Error ''Invalid state parameter''))"
  using invalid_state_aborts_flow
    [where env = "env_sample [req_favicon, req_forged, req_valid]" and pre = "[req_favicon]"
       and req = req_forged and post = "[req_valid]" and s = "on_listen None"
       and domain = "''a.myshopify.com''" and clientId = "''id''"
       and clientSecret = "''secret''" and scopes = None]
  by (simp add: env_sample_def req_favicon_def req_forged_def searchParams_get_def
      on_listen_def reject_def)

lemma on_timeout_pending:
  "settled s = Pending \<Longrightarrow>
   on_timeout s = s\<lparr>listening := False,
     settled := Rejected (Error ''Authorization timed out after 5 minutes'')\<rparr>"
  by (simp add: on_timeout_def server_close_def reject_def Let_def)

text \<open>
  C3. On every run of \<^verbatim>\<open>startCallbackServer\<close> the listener is closed whenever the
  promise is settled, and the call always ends settled and closed. Each terminal outcome
  closes the listener: a matching callback resolves, a state mismatch and a callback
  missing \<^verbatim>\<open>code\<close> or \<^verbatim>\<open>shop\<close> reject, and when no request to \<^verbatim>\<open>/callback\<close>
  arrives before the timer fires the promise is rejected with the timeout error.
\<close>

theorem listener_closed_on_every_outcome:
  "(settled (run_events e evs (on_listen le)) \<noteq> Pending \<longrightarrow>
      \<not> listening (run_events e evs (on_listen le))) \<and>
   settled (startCallbackServer e le reqs) \<noteq> Pending \<and>
   \<not> listening (startCallbackServer e le reqs) \<and>
   (pathname req = ''/callback'' \<and> searchParams_get req ''state'' = Some e \<and>
    searchParams_get req ''code'' = Some c \<and> c \<noteq> [] \<and>
    searchParams_get req ''shop'' = Some sh \<and> sh \<noteq> [] \<and> settled s = Pending \<longrightarrow>
      settled (handle_request e req s) = Resolved (c, sh) \<and>
      \<not> listening (handle_request e req s)) \<and>
   (pathname req = ''/callback'' \<and> searchParams_get req ''state'' \<noteq> Some e \<and>
    settled s = Pending \<longrightarrow>
      settled (handle_request e req s) = Rejected (Error ''Invalid state parameter'') \<and>
      \<not> listening (handle_request e req s)) \<and>
   (pathname req = ''/callback'' \<and> searchParams_get req ''state'' = Some e \<and>
    (falsy (searchParams_get req ''code'') \<or> falsy (searchParams_get req ''shop'')) \<and>
    settled s = Pending \<longrightarrow>
      settled (handle_request e req s) = Rejected (Error ''Missing code or shop parameter'') \<and>
      \<not> listening (handle_request e req s)) \<and>
   (settled s = Pending \<longrightarrow>
      settled (on_timeout s) = Rejected (Error ''Authorization timed out after 5 minutes'') \<and>
      \<not> listening (on_timeout s)) \<and>
   ((\<forall>r \<in> set reqs. pathname r \<noteq> ''/callback'') \<longrightarrow>
      settled (startCallbackServer e None reqs)
        = Rejected (Error ''Authorization timed out after 5 minutes''))"
proof -
  have inv: "closed_when_settled (run_events e evs (on_listen le))"
    by (rule closed_when_settled_run) (rule closed_when_settled_listen)
  have final: "settled (startCallbackServer e le reqs) \<noteq> Pending \<and>
      \<not> listening (startCallbackServer e le reqs)"
    using startCallbackServer_final [of e le reqs] by simp
  have success: "pathname req = ''/callback'' \<and> searchParams_get req ''state'' = Some e \<and>
      searchParams_get req ''code'' = Some c \<and> c \<noteq> [] \<and>
      searchParams_get req ''shop'' = Some sh \<and> sh \<noteq> [] \<and> settled s = Pending \<longrightarrow>
      settled (handle_request e req s) = Resolved (c, sh) \<and>
      \<not> listening (handle_request e req s)"
    by (simp add: handle_request_success resolve_def)
  have mismatch: "pathname req = ''/callback'' \<and> searchParams_get req ''state'' \<noteq> Some e \<and>
      settled s = Pending \<longrightarrow>
      settled (handle_request e req s) = Rejected (Error ''Invalid state parameter'') \<and>
      \<not> listening (handle_request e req s)"
    by (simp add: handle_request_invalid_state reject_def)
  have missing: "pathname req = ''/callback'' \<and> searchParams_get req ''state'' = Some e \<and>
      (falsy (searchParams_get req ''code'') \<or> falsy (searchParams_get req ''shop'')) \<and>
      settled s = Pending \<longrightarrow>
      settled (handle_request e req s) = Rejected (Error ''Missing code or shop parameter'') \<and>
      \<not> listening (handle_request e req s)"
    by (simp add: handle_request_missing reject_def)
  have timer: "settled s = Pending \<longrightarrow>
      settled (on_timeout s) = Rejected (Error ''Authorization timed out after 5 minutes'') \<and>
      \<not> listening (on_timeout s)"
    by (simp add: on_timeout_pending)
  have quiet: "(\<forall>r \<in> set reqs. pathname r \<noteq> ''/callback'') \<longrightarrow>
      settled (startCallbackServer e None reqs)
        = Rejected (Error ''Authorization timed out after 5 minutes'')"
    by (simp add: startCallbackServer_no_callback)
  from inv final success mismatch missing timer quiet show ?thesis
    unfolding closed_when_settled_def by blast
qed

theorem listener_closed_on_every_outcome_witness:
  "settled (run_events ''5f2a'' [Request req_favicon, Request req_valid] (on_listen None))
     = Resolved (''c0de'', ''a.myshopify.com'') \<and>
   \<not> listening (run_events ''5f2a'' [Request req_favicon, Request req_valid] (on_listen None)) \<and>
   settled (startCallbackServer ''5f2a'' None [req_favicon])
     = Rejected (Error ''Authorization timed out after 5 minutes'') \<and>
   \<not> listening (startCallbackServer ''5f2a'' None [req_favicon]) \<and>
   settled (handle_request ''5f2a'' req_no_code (on_listen None))
     = Rejected (Error ''Missing code or shop parameter'') \<and>
   \<not> listening (handle_request ''5f2a'' req_no_code (on_listen None))"
  using listener_closed_on_every_outcome
    [where e = "''5f2a''" and evs = "[Request req_favicon, Request req_valid]" and le = None
       and reqs = "[req_favicon]" and req = req_no_code and s = "on_listen None"
       and c = "''c0de''" and sh = "''a.myshopify.com''"]
  by (simp add: req_favicon_def req_valid_def req_no_code_def searchParams_get_def on_listen_def
      deliver_def handle_request_def respond_def server_close_def resolve_def reject_def
      falsy_def Let_def)



section \<open>Properties of the token exchange\<close>

lemma string_of_nat_digit: "n < 10 \<Longrightarrow> string_of_nat n = [digit_char n]"
  by (simp add: string_of_nat.simps)

lemma string_of_nat_step:
  "10 \<le> n \<Longrightarrow> string_of_nat n = string_of_nat (n div 10) @ [digit_char (n mod 10)]"
  by (subst string_of_nat.simps) simp

text \<open>
  A successful response (status 200) whose body is not JSON: the exchange fails although
  the response is successful, with the exception of \<^verbatim>\<open>response.json()\<close>, which
  carries no status.
\<close>

theorem exchangeCodeForToken_html_counterexample:
  "ok \<lparr>status = 200, statusText = ''OK'', body = ''<html>''\<rparr> \<and>
   token_endpoint_html (token_post ''a.myshopify.com'' ''id'' ''secret'' ''c0de'')
     = Inr \<lparr>status = 200, statusText = ''OK'', body = ''<html>''\<rparr> \<and>
   exchangeCodeForToken token_endpoint_html read_token_json ''2024-01-01T00:00:00.000Z''
       ''a.myshopify.com'' ''id'' ''secret'' ''c0de''
     = Inl (SyntaxError ''Unexpected token in JSON: <html>'')"
  by (simp add: exchangeCodeForToken_def token_endpoint_html_def read_token_json_def ok_def)

lemma exchangeCodeForToken_not_ok:
  "fetch (token_post domain clientId clientSecret code) = Inr resp \<Longrightarrow> \<not> ok resp \<Longrightarrow>
   exchangeCodeForToken fetch json now domain clientId clientSecret code =
     Inl (Error (''Failed to exchange code for token: ''
            @ string_of_nat (status resp) @ '' '' @ body resp))"
  by (simp add: exchangeCodeForToken_def)

lemma exchangeCodeForToken_ok:
  "fetch (token_post domain clientId clientSecret code) = Inr resp \<Longrightarrow> ok resp \<Longrightarrow>
   json (body resp) = Inr data \<Longrightarrow> data \<noteq> JNull \<Longrightarrow>
   exchangeCodeForToken fetch json now domain clientId clientSecret code =
     Inr \<lparr>got_access_token = field_value data ''access_token'',
          got_scope = field_value data ''scope'',
          got_obtained_at = now\<rparr>"
  by (simp add: exchangeCodeForToken_def read_field_def)

lemma exchangeCodeForToken_null:
  "fetch (token_post domain clientId clientSecret code) = Inr resp \<Longrightarrow> ok resp \<Longrightarrow>
   json (body resp) = Inr JNull \<Longrightarrow>
   exchangeCodeForToken fetch json now domain clientId clientSecret code =
     Inl (TypeError (''Cannot read properties of null (reading ''
            @ squote @ ''access_token'' @ squote @ '')''))"
  by (simp add: exchangeCodeForToken_def read_field_def)

lemma exchangeCodeForToken_not_json:
  "fetch (token_post domain clientId clientSecret code) = Inr resp \<Longrightarrow> ok resp \<Longrightarrow>
   json (body resp) = Inl e \<Longrightarrow>
   exchangeCodeForToken fetch json now domain clientId clientSecret code =
     Inl e"
  by (simp add: exchangeCodeForToken_def)

lemma exchangeCodeForToken_fails_iff:
  "isl (exchangeCodeForToken fetch json now domain clientId clientSecret code) \<longleftrightarrow>
     (case fetch (token_post domain clientId clientSecret code) of
        Inl e \<Rightarrow> True
      | Inr resp \<Rightarrow>
          \<not> ok resp \<or> isl (json (body resp)) \<or> json (body resp) = Inr JNull)"
  by (simp add: exchangeCodeForToken_def read_field_def split: sum.splits)

text \<open>
  C6 (amended). When the response is not successful the exchange fails with an error
  whose message carries the status and the body text. On a successful response whose body
  is JSON other than \<^verbatim>\<open>null\<close> it returns the record with \<^verbatim>\<open>access_token\<close> and
  \<^verbatim>\<open>scope\<close> as the body has them (\<^verbatim>\<open>undefined\<close> where it has none) and the current time
  as \<^verbatim>\<open>obtained_at\<close>; where the body is an object that has both as strings, this is
  a record of the declared type. On a successful response whose body is not JSON it
  fails with the exception of \<^verbatim>\<open>response.json()\<close>, and on one whose body is
  \<^verbatim>\<open>null\<close> with a \<^verbatim>\<open>TypeError\<close>. It fails exactly when the request itself fails,
  the response is not successful, or the body of a successful response is not JSON or is
  \<^verbatim>\<open>null\<close>.
\<close>

theorem exchangeCodeForToken_outcomes:
  "(fetch (token_post domain clientId clientSecret code) = Inr resp \<and> \<not> ok resp \<longrightarrow>
      exchangeCodeForToken fetch json now domain clientId clientSecret code =
        Inl (Error (''Failed to exchange code for token: ''
               @ string_of_nat (status resp) @ '' '' @ body resp))) \<and>
   (fetch (token_post domain clientId clientSecret code) = Inr resp \<and> ok resp \<and>
    json (body resp) = Inr data \<and> data \<noteq> JNull \<longrightarrow>
      exchangeCodeForToken fetch json now domain clientId clientSecret code =
        Inr \<lparr>got_access_token = field_value data ''access_token'',
             got_scope = field_value data ''scope'',
             got_obtained_at = now\<rparr>) \<and>
   (fetch (token_post domain clientId clientSecret code) = Inr resp \<and> ok resp \<and>
    json (body resp) = Inr (JObject entries) \<and>
    map_of entries ''access_token'' = Some (JString token) \<and>
    map_of entries ''scope'' = Some (JString granted) \<longrightarrow>
      (\<exists>r. exchangeCodeForToken fetch json now domain clientId clientSecret code = Inr r \<and>
           as_TokenData r =
             Some \<lparr>access_token = token, scope = granted, obtained_at = now\<rparr>)) \<and>
   (fetch (token_post domain clientId clientSecret code) = Inr resp \<and> ok resp \<and>
    json (body resp) = Inl e \<longrightarrow>
      exchangeCodeForToken fetch json now domain clientId clientSecret code =
        Inl e) \<and>
   (fetch (token_post domain clientId clientSecret code) = Inr resp \<and> ok resp \<and>
    json (body resp) = Inr JNull \<longrightarrow>
      exchangeCodeForToken fetch json now domain clientId clientSecret code =
        Inl (TypeError (''Cannot read properties of null (reading ''
               @ squote @ ''access_token'' @ squote @ '')''))) \<and>
   (isl (exchangeCodeForToken fetch json now domain clientId clientSecret code) \<longleftrightarrow>
      (case fetch (token_post domain clientId clientSecret code) of
         Inl e \<Rightarrow> True
       | Inr r \<Rightarrow> \<not> ok r \<or> isl (json (body r)) \<or> json (body r) = Inr JNull))"
proof (intro conjI impI)
  assume "fetch (token_post domain clientId clientSecret code) = Inr resp \<and> \<not> ok resp"
  then show "exchangeCodeForToken fetch json now domain clientId clientSecret code =
        Inl (Error (''Failed to exchange code for token: ''
               @ string_of_nat (status resp) @ '' '' @ body resp))"
    by (simp add: exchangeCodeForToken_not_ok)
next
  assume "fetch (token_post domain clientId clientSecret code) = Inr resp \<and> ok resp \<and>
    json (body resp) = Inr data \<and> data \<noteq> JNull"
  then show "exchangeCodeForToken fetch json now domain clientId clientSecret code =
        Inr \<lparr>got_access_token = field_value data ''access_token'',
             got_scope = field_value data ''scope'',
             got_obtained_at = now\<rparr>"
    by (simp add: exchangeCodeForToken_ok)
next
  assume a: "fetch (token_post domain clientId clientSecret code) = Inr resp \<and> ok resp \<and>
    json (body resp) = Inr (JObject entries) \<and>
    map_of entries ''access_token'' = Some (JString token) \<and>
    map_of entries ''scope'' = Some (JString granted)"
  then have "exchangeCodeForToken fetch json now domain clientId clientSecret code =
      Inr \<lparr>got_access_token = field_value (JObject entries) ''access_token'',
           got_scope = field_value (JObject entries) ''scope'',
           got_obtained_at = now\<rparr>"
    by (intro exchangeCodeForToken_ok [where resp = resp]) simp_all
  with a show "\<exists>r. exchangeCodeForToken fetch json now domain clientId clientSecret code = Inr r \<and>
      as_TokenData r = Some \<lparr>access_token = token, scope = granted, obtained_at = now\<rparr>"
    by (simp add: as_TokenData_def field_value_def)
next
  assume "fetch (token_post domain clientId clientSecret code) = Inr resp \<and> ok resp \<and>
    json (body resp) = Inl e"
  then show "exchangeCodeForToken fetch json now domain clientId clientSecret code =
        Inl e"
    by (simp add: exchangeCodeForToken_not_json)
next
  assume "fetch (token_post domain clientId clientSecret code) = Inr resp \<and> ok resp \<and>
    json (body resp) = Inr JNull"
  then show "exchangeCodeForToken fetch json now domain clientId clientSecret code =
        Inl (TypeError (''Cannot read properties of null (reading ''
               @ squote @ ''access_token'' @ squote @ '')''))"
    by (simp add: exchangeCodeForToken_null)
next
  show "isl (exchangeCodeForToken fetch json now domain clientId clientSecret code) \<longleftrightarrow>
      (case fetch (token_post domain clientId clientSecret code) of
         Inl e \<Rightarrow> True
       | Inr r \<Rightarrow> \<not> ok r \<or> isl (json (body r)) \<or> json (body r) = Inr JNull)"
    by (rule exchangeCodeForToken_fails_iff)
qed

theorem exchangeCodeForToken_outcomes_witness:
  "exchangeCodeForToken token_endpoint_denied read_token_json ''2024-01-01T00:00:00.000Z''
       ''a.myshopify.com'' ''id'' ''secret'' ''c0de''
     = Inl (Error ''Failed to exchange code for token: 401 invalid_request'') \<and>
   exchangeCodeForToken token_endpoint_ok read_token_json ''2024-01-01T00:00:00.000Z''
       ''a.myshopify.com'' ''id'' ''secret'' ''c0de''
     = Inr \<lparr>got_access_token = Some (JString ''shpat_a''),
          got_scope = Some (JString ''read_products''),
          got_obtained_at = ''2024-01-01T00:00:00.000Z''\<rparr> \<and>
   exchangeCodeForToken token_endpoint_empty read_token_json ''2024-01-01T00:00:00.000Z''
       ''a.myshopify.com'' ''id'' ''secret'' ''c0de''
     = Inr \<lparr>got_access_token = None, got_scope = None,
          got_obtained_at = ''2024-01-01T00:00:00.000Z''\<rparr> \<and>
   exchangeCodeForToken token_endpoint_null read_token_json ''2024-01-01T00:00:00.000Z''
       ''a.myshopify.com'' ''id'' ''secret'' ''c0de''
     = Inl (TypeError (''Cannot read properties of null (reading ''
            @ squote @ ''access_token'' @ squote @ '')'')) \<and>
   isl (exchangeCodeForToken token_endpoint_down read_token_json ''2024-01-01T00:00:00.000Z''
       ''a.myshopify.com'' ''id'' ''secret'' ''c0de'')"
  using exchangeCodeForToken_outcomes
    [where fetch = token_endpoint_denied and json = read_token_json
       and now = "''2024-01-01T00:00:00.000Z''" and domain = "''a.myshopify.com''"
       and clientId = "''id''" and clientSecret = "''secret''" and code = "''c0de''"
       and resp = "\<lparr>status = 401, statusText = ''Unauthorized'', body = ''invalid_request''\<rparr>"]
    exchangeCodeForToken_outcomes
    [where fetch = token_endpoint_ok and json = read_token_json
       and now = "''2024-01-01T00:00:00.000Z''" and domain = "''a.myshopify.com''"
       and clientId = "''id''" and clientSecret = "''secret''" and code = "''c0de''"
       and resp = "\<lparr>status = 200, statusText = ''OK'', body = ''{token}''\<rparr>"
       and data = "JObject [(''access_token'', JString ''shpat_a''),
                            (''scope'', JString ''read_products'')]"]
    exchangeCodeForToken_outcomes
    [where fetch = token_endpoint_empty and json = read_token_json
       and now = "''2024-01-01T00:00:00.000Z''" and domain = "''a.myshopify.com''"
       and clientId = "''id''" and clientSecret = "''secret''" and code = "''c0de''"
       and resp = "\<lparr>status = 200, statusText = ''OK'', body = ''{}''\<rparr>"
       and data = "JObject []"]
    exchangeCodeForToken_outcomes
    [where fetch = token_endpoint_null and json = read_token_json
       and now = "''2024-01-01T00:00:00.000Z''" and domain = "''a.myshopify.com''"
       and clientId = "''id''" and clientSecret = "''secret''" and code = "''c0de''"
       and resp = "\<lparr>status = 200, statusText = ''OK'', body = ''null''\<rparr>"]
    exchangeCodeForToken_outcomes
    [where fetch = token_endpoint_down and json = read_token_json
       and now = "''2024-01-01T00:00:00.000Z''" and domain = "''a.myshopify.com''"
       and clientId = "''id''" and clientSecret = "''secret''" and code = "''c0de''"]
  by (simp add: token_endpoint_denied_def token_endpoint_ok_def token_endpoint_down_def
      token_endpoint_empty_def token_endpoint_null_def field_value_def
      read_token_json_def ok_def string_of_nat_digit string_of_nat_step digit_char_def)

section \<open>Properties of the size text (getBulkOperationStatus.ts)\<close>

lemma below_ten_cases:
  "k < 10 \<Longrightarrow> k = 0 \<or> k = 1 \<or> k = 2 \<or> k = 3 \<or> k = 4 \<or> k = 5 \<or> k = 6 \<or> k = 7 \<or> k = 8 \<or> k = (9::nat)"
  by arith

lemma digit_char_props:
  assumes "k < 10"
  shows "digit_value (digit_char k) = k" and "is_digit (digit_char k)"
    and "\<not> is_space (digit_char k)" and "digit_char k \<noteq> CHR ''-''"
    and "digit_char k \<noteq> CHR ''+''"
  using below_ten_cases [OF assms]
  by (auto simp add: digit_char_def digit_value_def is_digit_def is_space_def)

lemma digits_value_snoc:
  "digits_value acc (cs @ [c]) = 10 * digits_value acc cs + digit_value c"
  by (induction cs arbitrary: acc) simp_all

lemma string_of_nat_digits:
  "string_of_nat n \<noteq> [] \<and> (\<forall>c \<in> set (string_of_nat n). is_digit c) \<and>
   digits_value 0 (string_of_nat n) = n"
proof (induction n rule: string_of_nat.induct)
  case (1 n)
  show ?case
  proof (cases "n < 10")
    case True
    then show ?thesis
      by (simp add: string_of_nat_digit digit_char_props)
  next
    case False
    then have step: "string_of_nat n = string_of_nat (n div 10) @ [digit_char (n mod 10)]"
      by (simp add: string_of_nat_step)
    have "n mod 10 < 10" by simp
    then have d: "is_digit (digit_char (n mod 10))"
      "digit_value (digit_char (n mod 10)) = n mod 10"
      by (simp_all add: digit_char_props)
    from False have ih: "string_of_nat (n div 10) \<noteq> [] \<and>
        (\<forall>c \<in> set (string_of_nat (n div 10)). is_digit c) \<and>
        digits_value 0 (string_of_nat (n div 10)) = n div 10"
      by (rule "1.IH")
    show ?thesis
      using ih d by (simp add: step digits_value_snoc)
  qed
qed

lemma hd_string_of_nat_digit: "is_digit (hd (string_of_nat n))"
  using string_of_nat_digits [of n] by (cases "string_of_nat n") simp_all

lemma is_digit_not_space: "is_digit c \<Longrightarrow> \<not> is_space c \<and> c \<noteq> CHR ''-'' \<and> c \<noteq> CHR ''+''"
  by (auto simp add: is_digit_def is_space_def)

lemma parseInt10_string_of_nat: "parseInt10 (string_of_nat n) = Some (int n)"
proof -
  let ?s = "string_of_nat n"
  have ne: "?s \<noteq> []" and all: "\<forall>x \<in> set ?s. is_digit x"
    and val: "digits_value 0 ?s = n"
    using string_of_nat_digits [of n] by simp_all
  have h: "\<not> is_space (hd ?s)" "hd ?s \<noteq> CHR ''-''" "hd ?s \<noteq> CHR ''+''"
    using is_digit_not_space [OF hd_string_of_nat_digit [of n]] by simp_all
  have drop: "dropWhile is_space ?s = ?s"
    using ne h(1) by (cases ?s) simp_all
  have take: "takeWhile is_digit ?s = ?s"
    using all by (simp only: takeWhile_eq_all_conv)
  show ?thesis
    by (simp add: parseInt10_def Let_def drop take ne h val)
qed

lemma string_of_int_nat: "string_of_int (int n) = string_of_nat n"
  by (simp add: string_of_int_def)

lemma fileSizeFormatted_string_of_nat:
  "fileSizeFormatted (Some (string_of_nat b)) =
     Some (if b \<le> 1024 then string_of_nat b @ '' bytes''
           else if b \<le> 1024 * 1024 then toFixed2 b 1024 @ '' KB''
           else toFixed2 b (1024 * 1024) @ '' MB'')"
  using string_of_nat_digits [of b]
  by (simp add: fileSizeFormatted_def falsy_def parseInt10_string_of_nat format_size_def
      js_gt_def string_of_js_int_def string_of_int_nat Let_def)

lemma hundredths_nearest:
  assumes "0 < d"
  shows "2 * d * hundredths n d \<le> 200 * n + d \<and> 200 * n + d < 2 * d * (hundredths n d + 1)"
proof -
  have "2 * d * ((200 * n + d) div (2 * d)) \<le> 200 * n + d"
    by (rule times_div_less_eq_dividend)
  moreover have "200 * n + d < 2 * d + 2 * d * ((200 * n + d) div (2 * d))"
    using assms by (intro dividend_less_times_div) simp
  ultimately show ?thesis by (simp add: hundredths_def)
qed

lemma getBulkOperationStatus_found:
  "client (lookup_for operationId) = Inr (Some data) \<Longrightarrow>
   \<exists>r. getBulkOperationStatus_execute client operationId = Inr (Found r) \<and>
       sf_fileSize r = fileSizeFormatted (op_fileSize data)"
  by (simp add: getBulkOperationStatus_execute_def)

lemma string_of_nat_samples:
  "string_of_nat 500 = ''500''" "string_of_nat 1024 = ''1024''" "string_of_nat 2048 = ''2048''"
  "string_of_nat 1048576 = ''1048576''" "string_of_nat 5242880 = ''5242880''"
  by (simp_all add: string_of_nat_digit string_of_nat_step digit_char_def)

lemma toFixed2_samples:
  "toFixed2 1024 1024 = ''1.00''" "toFixed2 2048 1024 = ''2.00''"
  "toFixed2 1048576 1024 = ''1024.00''" "toFixed2 1048576 1048576 = ''1.00''"
  "toFixed2 5242880 1048576 = ''5.00''" "toFixed2 1536 1024 = ''1.50''"
  "toFixed2 1029 1024 = ''1.00''" "toFixed2 1030 1024 = ''1.01''"
  by (simp_all add: toFixed2_def hundredths_def string_of_nat_digit string_of_nat_step
      digit_char_def Let_def)

text \<open>
  At exactly 1024 bytes the source prints bytes where the specification's wording gives
  KB, and at exactly 1,048,576 bytes it prints KB where the wording gives MB.
\<close>

theorem fileSize_boundary_counterexample:
  "fileSizeFormatted (Some ''1024'') = Some ''1024 bytes'' \<and>
   spec_size_text 1024 = ''1.00 KB'' \<and>
   fileSizeFormatted (Some ''1048576'') = Some ''1024.00 KB'' \<and>
   spec_size_text 1048576 = ''1.00 MB''"
proof -
  have "fileSizeFormatted (Some ''1024'') = Some ''1024 bytes''"
    using fileSizeFormatted_string_of_nat [of 1024] by (simp add: string_of_nat_samples)
  moreover have "fileSizeFormatted (Some ''1048576'') = Some ''1024.00 KB''"
    using fileSizeFormatted_string_of_nat [of 1048576]
    by (simp add: string_of_nat_samples toFixed2_samples)
  ultimately show ?thesis
    by (simp add: spec_size_text_def toFixed2_samples)
qed

text \<open>
  C7 (amended). For a byte count \<open>b\<close> below \<open>2 ^ 53\<close>, given as its decimal text, the
  status tool renders \<open>b\<close> as \<open>b\<close> followed by \<^verbatim>\<open> bytes\<close> when \<open>b\<close> is at most
  1024, as \<open>b / 1024\<close> with two decimals and \<^verbatim>\<open> KB\<close> when \<open>b\<close> is above 1024 and
  at most 1,048,576, and as \<open>b / 1048576\<close> with two decimals and \<^verbatim>\<open> MB\<close> above that.
  The two decimals are those of the integer nearest to a hundred times the quotient.
  500 gives \<^verbatim>\<open>500 bytes\<close>, 2048 gives \<^verbatim>\<open>2.00 KB\<close>, 5242880 gives \<^verbatim>\<open>5.00 MB\<close>.
\<close>

theorem fileSize_rendering:
  "(b < 2 ^ 53 \<and> client (lookup_for operationId) = Inr (Some data) \<and>
    op_fileSize data = Some (string_of_nat b) \<longrightarrow>
      (\<exists>r. getBulkOperationStatus_execute client operationId = Inr (Found r) \<and>
         sf_fileSize r =
           Some (if b \<le> 1024 then string_of_nat b @ '' bytes''
                 else if b \<le> 1048576 then toFixed2 b 1024 @ '' KB''
                 else toFixed2 b 1048576 @ '' MB''))) \<and>
   2 * 1024 * hundredths b 1024 \<le> 200 * b + 1024 \<and>
   200 * b + 1024 < 2 * 1024 * (hundredths b 1024 + 1) \<and>
   2 * 1048576 * hundredths b 1048576 \<le> 200 * b + 1048576 \<and>
   200 * b + 1048576 < 2 * 1048576 * (hundredths b 1048576 + 1) \<and>
   fileSizeFormatted (Some ''500'') = Some ''500 bytes'' \<and>
   fileSizeFormatted (Some ''2048'') = Some ''2.00 KB'' \<and>
   fileSizeFormatted (Some ''5242880'') = Some ''5.00 MB''"
proof -
  have render: "b < 2 ^ 53 \<and> client (lookup_for operationId) = Inr (Some data) \<and>
      op_fileSize data = Some (string_of_nat b) \<longrightarrow>
      (\<exists>r. getBulkOperationStatus_execute client operationId = Inr (Found r) \<and>
         sf_fileSize r =
           Some (if b \<le> 1024 then string_of_nat b @ '' bytes''
                 else if b \<le> 1048576 then toFixed2 b 1024 @ '' KB''
                 else toFixed2 b 1048576 @ '' MB''))"
  proof
    assume a: "b < 2 ^ 53 \<and> client (lookup_for operationId) = Inr (Some data) \<and>
      op_fileSize data = Some (string_of_nat b)"
    then obtain r where r: "getBulkOperationStatus_execute client operationId = Inr (Found r)"
      "sf_fileSize r = fileSizeFormatted (op_fileSize data)"
      using getBulkOperationStatus_found by blast
    have "sf_fileSize r =
        Some (if b \<le> 1024 then string_of_nat b @ '' bytes''
              else if b \<le> 1048576 then toFixed2 b 1024 @ '' KB''
              else toFixed2 b 1048576 @ '' MB'')"
      using a r(2) by (simp add: fileSizeFormatted_string_of_nat)
    with r(1) show "\<exists>r. getBulkOperationStatus_execute client operationId = Inr (Found r) \<and>
        sf_fileSize r =
          Some (if b \<le> 1024 then string_of_nat b @ '' bytes''
                else if b \<le> 1048576 then toFixed2 b 1024 @ '' KB''
                else toFixed2 b 1048576 @ '' MB'')"
      by blast
  qed
  have kb: "2 * 1024 * hundredths b 1024 \<le> 200 * b + 1024 \<and>
      200 * b + 1024 < 2 * 1024 * (hundredths b 1024 + 1)"
    by (rule hundredths_nearest) simp
  have mb: "2 * 1048576 * hundredths b 1048576 \<le> 200 * b + 1048576 \<and>
      200 * b + 1048576 < 2 * 1048576 * (hundredths b 1048576 + 1)"
    by (rule hundredths_nearest) simp
  have "fileSizeFormatted (Some ''500'') = Some ''500 bytes''"
    "fileSizeFormatted (Some ''2048'') = Some ''2.00 KB''"
    "fileSizeFormatted (Some ''5242880'') = Some ''5.00 MB''"
    using fileSizeFormatted_string_of_nat [of 500] fileSizeFormatted_string_of_nat [of 2048]
      fileSizeFormatted_string_of_nat [of 5242880]
    by (simp_all add: toFixed2_samples string_of_nat_samples)
  then have samples: "fileSizeFormatted (Some ''500'') = Some ''500 bytes'' \<and>
      fileSizeFormatted (Some ''2048'') = Some ''2.00 KB'' \<and>
      fileSizeFormatted (Some ''5242880'') = Some ''5.00 MB''"
    by (simp add: string_of_nat_samples)
  from render kb mb samples show ?thesis by blast
qed

theorem fileSize_rendering_witness:
  "(1536::nat) < 2 ^ 53 \<and>
   getBulkOperationStatus_execute (status_client ''1536'') None
     = Inr (Found
        \<lparr>sf_id = ''gid://shopify/BulkOperation/1'', sf_status = ''COMPLETED'',
         sf_type = ''QUERY'', sf_createdAt = ''2024-01-01T00:00:00Z'',
         sf_completedAt = Some ''2024-01-01T00:10:00Z'', sf_objectCount = Some 1500,
         sf_fileSize = Some ''1.50 KB'', sf_fileSizeBytes = Some (Some 1536),
         sf_url = Some ''https://storage.example/result.jsonl'',
         sf_partialDataUrl = None, sf_errorCode = None,
         sf_progress = ''Completed! 1500 objects exported.'',
         sf_isComplete = True, sf_isFailed = False, sf_isRunning = False\<rparr>)"
proof -
  have s: "string_of_nat 1536 = ''1536''" "string_of_nat 1500 = ''1500''"
    by (simp_all add: string_of_nat_digit string_of_nat_step digit_char_def)
  have p: "parseInt10 ''1536'' = Some 1536" "parseInt10 ''1500'' = Some 1500"
    using parseInt10_string_of_nat [of 1536] parseInt10_string_of_nat [of 1500]
    by (simp_all add: s)
  have "\<exists>r. getBulkOperationStatus_execute (status_client ''1536'') None = Inr (Found r) \<and>
      sf_fileSize r = Some ''1.50 KB''"
    using fileSize_rendering
      [where b = 1536 and client = "status_client ''1536''" and operationId = None
         and data = "\<lparr>op_id = ''gid://shopify/BulkOperation/1'', op_status = ''COMPLETED'',
           op_type = ''QUERY'', op_createdAt = ''2024-01-01T00:00:00Z'',
           op_completedAt = Some ''2024-01-01T00:10:00Z'', op_objectCount = ''1500'',
           op_fileSize = Some ''1536'', op_url = Some ''https://storage.example/result.jsonl'',
           op_partialDataUrl = None, op_errorCode = None, op_query = None\<rparr>"]
    by (simp add: status_client_def s toFixed2_samples)
  then show ?thesis
    by (auto simp add: getBulkOperationStatus_execute_def status_client_def lookup_for_def
        falsy_def progressMessage_def p)
qed

section \<open>Properties of the bulk export submission (startBulkExport.ts)\<close>

lemma startBulkExport_try_userErrors:
  assumes "bulkQuery_of input = Inr q" and "client q = Inr payload"
    and "userErrors payload \<noteq> []"
  shows "startBulkExport_try client input =
     Inl (Error (''Failed to start bulk export: ''
            @ join '', '' (map ue_message (userErrors payload))))"
  using assms by (simp add: startBulkExport_try_def)

lemma bulkQuery_of_products:
  "ex_type input = Products \<Longrightarrow>
   bulkQuery_of input = Inr (buildProductsQuery (ex_query input) (ex_includeMetafields input))"
  by (simp add: bulkQuery_of_def)

text \<open>
  Two rejections with the same messages on different fields give the same error, and its
  text is not the text of the field and message pairs.
\<close>

theorem startBulkExport_userErrors_counterexample:
  "startBulkExport_execute (client_rejecting errors_on_query) input_products
     = Inl (Error ''Failed to start bulk export: Failed to start bulk export: already running, invalid'') \<and>
   startBulkExport_execute (client_rejecting errors_on_other) input_products
     = Inl (Error ''Failed to start bulk export: Failed to start bulk export: already running, invalid'') \<and>
   spec_field_message_pairs errors_on_query = ''query: already running, query.0: invalid'' \<and>
   spec_field_message_pairs errors_on_other = ''base: already running, : invalid''"
  by (simp add: startBulkExport_execute_def startBulkExport_try_def bulkQuery_of_def
      input_products_def client_rejecting_def errors_on_query_def errors_on_other_def
      spec_field_message_pairs_def)

text \<open>
  C8 (amended). Whenever the submission mutation returns a non-empty list of user errors,
  \<^verbatim>\<open>execute\<close> fails, returning no operation id, with an error whose message is the
  prefix, written twice, followed by the messages of all reported errors joined by a comma
  and a blank; the fields of the errors are not part of it.
\<close>

theorem startBulkExport_userErrors:
  "(bulkQuery_of input = Inr q \<and> client q = Inr payload \<and> userErrors payload \<noteq> [] \<longrightarrow>
      startBulkExport_execute client input =
        Inl (Error (''Failed to start bulk export: Failed to start bulk export: ''
               @ join '', '' (map ue_message (userErrors payload)))) \<and>
      (\<forall>started. startBulkExport_execute client input \<noteq> Inr started))"
proof
  assume a: "bulkQuery_of input = Inr q \<and> client q = Inr payload \<and> userErrors payload \<noteq> []"
  then have "startBulkExport_try client input =
      Inl (Error (''Failed to start bulk export: ''
             @ join '', '' (map ue_message (userErrors payload))))"
    using startBulkExport_try_userErrors [of input q client payload] by simp
  then have "startBulkExport_execute client input =
      Inl (Error (''Failed to start bulk export: Failed to start bulk export: ''
             @ join '', '' (map ue_message (userErrors payload))))"
    by (simp add: startBulkExport_execute_def)
  then show "startBulkExport_execute client input =
        Inl (Error (''Failed to start bulk export: Failed to start bulk export: ''
               @ join '', '' (map ue_message (userErrors payload)))) \<and>
      (\<forall>started. startBulkExport_execute client input \<noteq> Inr started)"
    by simp
qed

theorem startBulkExport_userErrors_witness:
  "bulkQuery_of input_products
     = Inr (buildProductsQuery (Some ''status:active'') False) \<and>
   userErrors \<lparr>bulkOperation = None, userErrors = errors_on_query\<rparr> = errors_on_query \<and>
   length errors_on_query = 2 \<and>
   startBulkExport_execute (client_rejecting errors_on_query) input_products
     = Inl (Error ''Failed to start bulk export: Failed to start bulk export: already running, invalid'')"
  using startBulkExport_userErrors
    [where input = input_products and client = "client_rejecting errors_on_query"
       and q = "buildProductsQuery (Some ''status:active'') False"
       and payload = "\<lparr>bulkOperation = None, userErrors = errors_on_query\<rparr>"]
  by (simp add: bulkQuery_of_def input_products_def client_rejecting_def errors_on_query_def)

section \<open>Properties of the result download (getBulkOperationResults.ts)\<close>

lemma map_filter_all:
  "\<forall>x \<in> set xs. f x \<noteq> None \<Longrightarrow> List.map_filter f xs = map (the \<circ> f) xs"
  by (induction xs) (auto simp add: map_filter_simps)

lemma parse_loop_eq:
  "nat limit \<le> length lines \<Longrightarrow>
   parse_loop parse lines limit i objects =
     objects @ List.map_filter parse (map ((!) lines) [i..<nat limit])"
proof (induction parse lines limit i objects rule: parse_loop.induct)
  case (1 parse lines limit i objects)
  show ?case
  proof (cases "int i < limit")
    case True
    then have i: "i < nat limit" by simp
    with "1.prems" have inr: "i < length lines" by simp
    have upt: "[i..<nat limit] = i # [Suc i..<nat limit]"
      using i by (simp add: upt_conv_Cons)
    show ?thesis
    proof (cases "parse (lines ! i)")
      case None
      then have "parse_loop parse lines limit i objects =
          parse_loop parse lines limit (i + 1) objects"
        using True inr by (subst parse_loop.simps) simp
      also have "\<dots> = objects @ List.map_filter parse (map ((!) lines) [Suc i..<nat limit])"
        using "1.IH" True None inr "1.prems" by simp
      finally show ?thesis
        using None by (simp add: upt map_filter_simps)
    next
      case (Some parsed)
      then have "parse_loop parse lines limit i objects =
          parse_loop parse lines limit (i + 1) (objects @ [parsed])"
        using True inr by (subst parse_loop.simps) simp
      also have "\<dots> = (objects @ [parsed])
          @ List.map_filter parse (map ((!) lines) [Suc i..<nat limit])"
        using "1.IH" True Some inr "1.prems" by simp
      finally show ?thesis
        using Some by (simp add: upt map_filter_simps)
    qed
  next
    case False
    then have "nat limit \<le> i" by simp
    then have empty: "[i..<nat limit] = []" by simp
    have "parse_loop parse lines limit i objects = objects"
      using False by (subst parse_loop.simps) simp
    then show ?thesis by (simp only: empty list.map map_filter_simps append_Nil2)
  qed
qed

lemma map_nth_take: "n \<le> length xs \<Longrightarrow> map ((!) xs) [0..<n] = take n xs"
  by (induction n) (simp_all add: take_Suc_conv_app_nth)

lemma parse_loop_full:
  "parse_loop parse lines (min (int MAX_FULL_OBJECTS) (int (length lines))) 0 [] =
     List.map_filter parse (take MAX_FULL_OBJECTS lines)"
proof -
  let ?limit = "min (int MAX_FULL_OBJECTS) (int (length lines))"
  have n: "nat ?limit = min MAX_FULL_OBJECTS (length lines)" by simp
  then have "nat ?limit \<le> length lines" by simp
  then have "parse_loop parse lines ?limit 0 [] =
      List.map_filter parse (map ((!) lines) [0..<nat ?limit])"
    by (simp add: parse_loop_eq)
  also have "map ((!) lines) [0..<nat ?limit] = take MAX_FULL_OBJECTS lines"
    unfolding n by (cases "MAX_FULL_OBJECTS \<le> length lines") (simp_all add: map_nth_take)
  finally show ?thesis .
qed

lemma getBulkOperationResults_full:
  assumes "client (lookup_for (ri_operationId input)) = Inr (Some operationData)"
    and "op_status operationData = ''COMPLETED''"
    and "op_url operationData = Some u" and "u \<noteq> []"
    and "expiry plus7days (op_completedAt operationData) = Inr expiresAt"
    and "fetch u = Inr resp" and "ok resp"
    and "ri_format input = FormatFull"
  shows "\<exists>r. getBulkOperationResults_execute client fetch parse plus7days input
             = Inr (FullResult r) \<and>
           fl_data r = List.map_filter parse
             (take MAX_FULL_OBJECTS (split_lines (trim (body resp)))) \<and>
           fl_objectCount r = length (fl_data r) \<and>
           fl_truncated r =
             js_gt (parseInt10 (op_objectCount operationData)) (int MAX_FULL_OBJECTS)"
  using assms
  by (simp add: getBulkOperationResults_execute_def getBulkOperationResults_try_def
      parse_loop_full falsy_def Let_def)

lemma split_lines_no_newline: "newline \<notin> set l \<Longrightarrow> split_lines l = [l]"
  by (induction l) auto

lemma split_lines_line:
  "newline \<notin> set l \<Longrightarrow> split_lines (l @ newline # rest) = l # split_lines rest"
  by (induction l) auto

lemma split_lines_join:
  "ls \<noteq> [] \<Longrightarrow> \<forall>l \<in> set ls. newline \<notin> set l \<Longrightarrow>
   split_lines (join [newline] ls) = ls"
proof (induction "[newline]" ls rule: join.induct)
  case 1
  then show ?case by simp
next
  case (2 x)
  then show ?case by (simp add: split_lines_no_newline)
next
  case (3 x y ys)
  then show ?case by (simp add: split_lines_line)
qed

lemma hd_join: "x \<noteq> [] \<Longrightarrow> hd (join sep (x # xs)) = hd x"
  by (cases xs) simp_all

lemma join_not_empty: "xs \<noteq> [] \<Longrightarrow> last xs \<noteq> [] \<Longrightarrow> join sep xs \<noteq> []"
  by (induction sep xs rule: join.induct) simp_all

lemma last_join:
  "xs \<noteq> [] \<Longrightarrow> last xs \<noteq> [] \<Longrightarrow> last (join sep xs) = last (last xs)"
proof (induction sep xs rule: join.induct)
  case (3 sep x y ys)
  then have "last (join sep (y # ys)) = last (last (y # ys))" by simp
  moreover have "join sep (y # ys) \<noteq> []"
    using "3.prems" by (simp add: join_not_empty)
  ultimately show ?case by simp
qed simp_all

lemma trim_line_feed:
  assumes "s \<noteq> []" and "\<not> is_space (hd s)" and "\<not> is_space (last s)"
  shows "trim (s @ [newline]) = s"
proof -
  have front: "dropWhile is_space (s @ [newline]) = s @ [newline]"
    using assms(1,2) by (cases s) simp_all
  have nl: "is_space newline"
    by (simp add: is_space_def newline_def)
  have rear: "dropWhile is_space (rev s) = rev s"
    using assms(1,3) by (cases "rev s") (simp_all add: last_rev [symmetric] del: last_rev)
  show ?thesis
    by (simp add: trim_def front nl rear)
qed

lemma lines_of_jsonl:
  assumes "ls \<noteq> []" and "\<forall>l \<in> set ls. read_line l \<noteq> None \<and> newline \<notin> set l"
  shows "split_lines (trim (jsonl ls)) = ls"
proof -
  have first: "hd ls \<in> set ls" and final: "last ls \<in> set ls"
    using assms(1) by simp_all
  have obj: "\<And>l. l \<in> set ls \<Longrightarrow> l \<noteq> [] \<and> hd l = CHR ''{'' \<and> last l = CHR ''}''"
    using assms(2) by (auto simp add: read_line_def split: if_splits)
  have "hd (join [newline] ls) = CHR ''{''"
    using obj [OF first] assms(1) by (cases ls) (simp_all add: hd_join)
  moreover have "last (join [newline] ls) = CHR ''}''"
    using obj [OF final] assms(1) by (simp add: last_join)
  moreover have "join [newline] ls \<noteq> []"
    using obj [OF final] assms(1) by (simp add: join_not_empty)
  ultimately have "trim (jsonl ls) = join [newline] ls"
    unfolding jsonl_def by (intro trim_line_feed) (simp_all add: is_space_def)
  then show ?thesis
    using assms by (simp add: split_lines_join)
qed

lemma read_line_object: "read_line ''{}'' = Some ''{}''" "newline \<notin> set ''{}''"
  by (simp_all add: read_line_def newline_def)

lemma lines_of_sample_file:
  "0 < n \<Longrightarrow> split_lines (trim (jsonl (replicate n ''{}''))) = replicate n ''{}''"
  by (rule lines_of_jsonl) (simp_all add: read_line_object newline_def)

text \<open>
  A result file of 1500 lines that all parse, for an operation that reports 900 objects:
  the full format gives 1000 objects and \<^verbatim>\<open>truncated\<close> false, though the file holds
  more than 1000. And an operation whose \<^verbatim>\<open>completedAt\<close> is not a date: the call
  throws, whatever the file holds.
\<close>

theorem full_format_flag_counterexample:
  "length (split_lines (trim (jsonl (replicate 1500 ''{}'')))) = 1500 \<and>
   map read_line (split_lines (trim (jsonl (replicate 1500 ''{}''))))
     = replicate 1500 (Some ''{}'') \<and>
   full_count (getBulkOperationResults_execute (results_client ''900'')
       (fetch_file (jsonl (replicate 1500 ''{}''))) read_line plus7days_sample full_input)
     = Some 1000 \<and>
   full_truncated (getBulkOperationResults_execute (results_client ''900'')
       (fetch_file (jsonl (replicate 1500 ''{}''))) read_line plus7days_sample full_input)
     = Some False \<and>
   getBulkOperationResults_execute (results_client_undated ''yesterday'')
       (fetch_file (jsonl (replicate 1500 ''{}''))) read_line plus7days_sample full_input
     = Inl (Error ''Failed to get bulk operation results: Invalid time value'')"
proof -
  have number: "parseInt10 ''900'' = Some 900"
    using parseInt10_string_of_nat [of 900]
    by (simp add: string_of_nat_digit string_of_nat_step digit_char_def)
  have big: "split_lines (trim (jsonl (replicate 1500 ''{}''))) = replicate 1500 ''{}''"
    by (simp add: lines_of_sample_file)
  have "\<exists>r. getBulkOperationResults_execute (results_client ''900'')
          (fetch_file (jsonl (replicate 1500 ''{}''))) read_line plus7days_sample full_input
        = Inr (FullResult r) \<and>
        fl_data r = List.map_filter read_line (take MAX_FULL_OBJECTS (replicate 1500 ''{}'')) \<and>
        fl_truncated r = js_gt (Some 900) (int MAX_FULL_OBJECTS)"
    using getBulkOperationResults_full
      [where client = "results_client ''900''" and input = full_input
         and operationData = "\<lparr>op_id = ''gid://shopify/BulkOperation/1'',
           op_status = ''COMPLETED'', op_type = ''QUERY'',
           op_createdAt = ''2024-01-01T00:00:00Z'',
           op_completedAt = Some ''2024-01-01T00:10:00Z'', op_objectCount = ''900'',
           op_fileSize = Some ''4500'',
           op_url = Some ''https://storage.example/result.jsonl'',
           op_partialDataUrl = None, op_errorCode = None, op_query = None\<rparr>"
         and u = "''https://storage.example/result.jsonl''"
         and fetch = "fetch_file (jsonl (replicate 1500 ''{}''))"
         and resp = "\<lparr>status = 200, statusText = ''OK'',
           body = jsonl (replicate 1500 ''{}'')\<rparr>"
         and parse = read_line and plus7days = plus7days_sample
         and expiresAt = "Some ''2024-01-08T00:10:00.000Z''"]
    by (auto simp add: results_client_def fetch_file_def full_input_def ok_def big number
        expiry_def plus7days_sample_def falsy_def)
  then obtain r where
    res: "getBulkOperationResults_execute (results_client ''900'')
          (fetch_file (jsonl (replicate 1500 ''{}''))) read_line plus7days_sample full_input
        = Inr (FullResult r)"
    and data: "fl_data r =
        List.map_filter read_line (take MAX_FULL_OBJECTS (replicate 1500 ''{}''))"
    and flag: "fl_truncated r = js_gt (Some 900) (int MAX_FULL_OBJECTS)"
    by blast
  have "List.map_filter read_line (take MAX_FULL_OBJECTS (replicate 1500 ''{}'')) =
      map (the \<circ> read_line) (take MAX_FULL_OBJECTS (replicate 1500 ''{}''))"
    by (rule map_filter_all) (auto simp add: read_line_object dest: in_set_takeD)
  then have count: "length (fl_data r) = 1000"
    using data by (simp add: MAX_FULL_OBJECTS_def)
  have undated: "getBulkOperationResults_execute (results_client_undated ''yesterday'')
       (fetch_file (jsonl (replicate 1500 ''{}''))) read_line plus7days_sample full_input
     = Inl (Error ''Failed to get bulk operation results: Invalid time value'')"
    by (simp add: getBulkOperationResults_execute_def getBulkOperationResults_try_def
        results_client_undated_def full_input_def lookup_for_def falsy_def expiry_def
        plus7days_sample_def Let_def)
  show ?thesis
    using res count flag undated
    by (simp add: full_count_def full_truncated_def big js_gt_def MAX_FULL_OBJECTS_def
        read_line_object)
qed

text \<open>
  C9 (amended). For a completed operation with a download URL whose \<^verbatim>\<open>completedAt\<close>
  is absent or a date, whose \<^verbatim>\<open>objectCount\<close> is the decimal text of a number \<open>n\<close>,
  and whose result file is fetched and splits into lines that all parse, the full format
  returns the objects of the first 1000 lines, so exactly the minimum of 1000 and the
  number of lines, reports that number as its object count, and sets \<^verbatim>\<open>truncated\<close>
  exactly when \<open>n\<close>, the object count that the operation reports, exceeds 1000. An
  empty file gives no object. When \<^verbatim>\<open>completedAt\<close> is not a date the call throws.
\<close>

theorem full_format_cap:
  "(client (lookup_for (ri_operationId input)) = Inr (Some operationData) \<and>
    op_status operationData = ''COMPLETED'' \<and> op_url operationData = Some u \<and> u \<noteq> [] \<and>
    (falsy (op_completedAt operationData) \<or>
     (\<exists>date. plus7days (the (op_completedAt operationData)) = Inr date)) \<and>
    op_objectCount operationData = string_of_nat n \<and>
    fetch u = Inr resp \<and> ok resp \<and> ri_format input = FormatFull \<and>
    (\<forall>l \<in> set (split_lines (trim (body resp))). parse l \<noteq> None) \<longrightarrow>
    (\<exists>r. getBulkOperationResults_execute client fetch parse plus7days input
            = Inr (FullResult r) \<and>
         fl_data r = map (the \<circ> parse) (take 1000 (split_lines (trim (body resp)))) \<and>
         length (fl_data r) = min 1000 (length (split_lines (trim (body resp)))) \<and>
         fl_objectCount r = min 1000 (length (split_lines (trim (body resp)))) \<and>
         fl_truncated r = (1000 < n))) \<and>
   (client (lookup_for (ri_operationId input)) = Inr (Some operationData) \<and>
    op_status operationData = ''COMPLETED'' \<and> op_url operationData = Some u \<and> u \<noteq> [] \<and>
    (falsy (op_completedAt operationData) \<or>
     (\<exists>date. plus7days (the (op_completedAt operationData)) = Inr date)) \<and>
    op_objectCount operationData = string_of_nat n \<and>
    fetch u = Inr resp \<and> ok resp \<and> ri_format input = FormatFull \<and>
    trim (body resp) = [] \<and> parse [] = None \<longrightarrow>
    (\<exists>r. getBulkOperationResults_execute client fetch parse plus7days input
            = Inr (FullResult r) \<and>
         fl_data r = [] \<and> fl_objectCount r = 0 \<and> fl_truncated r = (1000 < n))) \<and>
   (client (lookup_for (ri_operationId input)) = Inr (Some operationData) \<and>
    op_status operationData = ''COMPLETED'' \<and> op_url operationData = Some u \<and> u \<noteq> [] \<and>
    op_completedAt operationData = Some completed \<and> completed \<noteq> [] \<and>
    plus7days completed = Inl e \<longrightarrow>
    getBulkOperationResults_execute client fetch parse plus7days input
      = Inl (Error (''Failed to get bulk operation results: '' @ error_message e)))"
proof (intro conjI impI)
  let ?lines = "split_lines (trim (body resp))"
  assume a: "client (lookup_for (ri_operationId input)) = Inr (Some operationData) \<and>
    op_status operationData = ''COMPLETED'' \<and> op_url operationData = Some u \<and> u \<noteq> [] \<and>
    (falsy (op_completedAt operationData) \<or>
     (\<exists>date. plus7days (the (op_completedAt operationData)) = Inr date)) \<and>
    op_objectCount operationData = string_of_nat n \<and>
    fetch u = Inr resp \<and> ok resp \<and> ri_format input = FormatFull \<and>
    (\<forall>l \<in> set ?lines. parse l \<noteq> None)"
  then have "\<exists>expiresAt. expiry plus7days (op_completedAt operationData) = Inr expiresAt"
    by (cases "falsy (op_completedAt operationData)") (auto simp add: expiry_def)
  then obtain expiresAt where
    "expiry plus7days (op_completedAt operationData) = Inr expiresAt" ..
  with a obtain r where
    res: "getBulkOperationResults_execute client fetch parse plus7days input
            = Inr (FullResult r)"
    and data: "fl_data r = List.map_filter parse (take MAX_FULL_OBJECTS ?lines)"
    and count: "fl_objectCount r = length (fl_data r)"
    and flag: "fl_truncated r =
        js_gt (parseInt10 (op_objectCount operationData)) (int MAX_FULL_OBJECTS)"
    using getBulkOperationResults_full
      [of client input operationData u plus7days expiresAt fetch resp parse]
    by blast
  have "\<forall>l \<in> set (take 1000 ?lines). parse l \<noteq> None"
    using a by (meson in_set_takeD)
  then have objects: "fl_data r = map (the \<circ> parse) (take 1000 ?lines)"
    using data by (simp add: map_filter_all MAX_FULL_OBJECTS_def)
  then have len: "length (fl_data r) = min 1000 (length ?lines)"
    by (simp add: min.commute)
  have reported: "fl_truncated r = (1000 < n)"
    using flag a by (simp add: parseInt10_string_of_nat js_gt_def MAX_FULL_OBJECTS_def)
  show "\<exists>r. getBulkOperationResults_execute client fetch parse plus7days input
            = Inr (FullResult r) \<and>
         fl_data r = map (the \<circ> parse) (take 1000 ?lines) \<and>
         length (fl_data r) = min 1000 (length ?lines) \<and>
         fl_objectCount r = min 1000 (length ?lines) \<and>
         fl_truncated r = (1000 < n)"
    using res objects len count reported by auto
next
  assume a: "client (lookup_for (ri_operationId input)) = Inr (Some operationData) \<and>
    op_status operationData = ''COMPLETED'' \<and> op_url operationData = Some u \<and> u \<noteq> [] \<and>
    (falsy (op_completedAt operationData) \<or>
     (\<exists>date. plus7days (the (op_completedAt operationData)) = Inr date)) \<and>
    op_objectCount operationData = string_of_nat n \<and>
    fetch u = Inr resp \<and> ok resp \<and> ri_format input = FormatFull \<and>
    trim (body resp) = [] \<and> parse [] = None"
  then have "\<exists>expiresAt. expiry plus7days (op_completedAt operationData) = Inr expiresAt"
    by (cases "falsy (op_completedAt operationData)") (auto simp add: expiry_def)
  then obtain expiresAt where
    "expiry plus7days (op_completedAt operationData) = Inr expiresAt" ..
  with a obtain r where
    res: "getBulkOperationResults_execute client fetch parse plus7days input
            = Inr (FullResult r)"
    and data: "fl_data r = List.map_filter parse
        (take MAX_FULL_OBJECTS (split_lines (trim (body resp))))"
    and count: "fl_objectCount r = length (fl_data r)"
    and flag: "fl_truncated r =
        js_gt (parseInt10 (op_objectCount operationData)) (int MAX_FULL_OBJECTS)"
    using getBulkOperationResults_full
      [of client input operationData u plus7days expiresAt fetch resp parse]
    by blast
  have empty: "fl_data r = []"
    using a data by (simp add: MAX_FULL_OBJECTS_def map_filter_simps)
  have reported: "fl_truncated r = (1000 < n)"
    using flag a by (simp add: parseInt10_string_of_nat js_gt_def MAX_FULL_OBJECTS_def)
  show "\<exists>r. getBulkOperationResults_execute client fetch parse plus7days input
            = Inr (FullResult r) \<and>
         fl_data r = [] \<and> fl_objectCount r = 0 \<and> fl_truncated r = (1000 < n)"
    using res count empty reported by auto
next
  assume "client (lookup_for (ri_operationId input)) = Inr (Some operationData) \<and>
    op_status operationData = ''COMPLETED'' \<and> op_url operationData = Some u \<and> u \<noteq> [] \<and>
    op_completedAt operationData = Some completed \<and> completed \<noteq> [] \<and>
    plus7days completed = Inl e"
  then show "getBulkOperationResults_execute client fetch parse plus7days input
      = Inl (Error (''Failed to get bulk operation results: '' @ error_message e))"
    by (simp add: getBulkOperationResults_execute_def getBulkOperationResults_try_def
        expiry_def falsy_def Let_def)
qed

theorem full_format_cap_witness:
  "length (split_lines (trim (jsonl (replicate 1500 ''{}'')))) = 1500 \<and>
   string_of_nat 1500 = ''1500'' \<and>
   full_count (getBulkOperationResults_execute (results_client ''1500'')
       (fetch_file (jsonl (replicate 1500 ''{}''))) read_line plus7days_sample full_input)
     = Some 1000 \<and>
   full_truncated (getBulkOperationResults_execute (results_client ''1500'')
       (fetch_file (jsonl (replicate 1500 ''{}''))) read_line plus7days_sample full_input)
     = Some True \<and>
   length (split_lines (trim (jsonl (replicate 500 ''{}'')))) = 500 \<and>
   string_of_nat 500 = ''500'' \<and>
   full_count (getBulkOperationResults_execute (results_client ''500'')
       (fetch_file (jsonl (replicate 500 ''{}''))) read_line plus7days_sample full_input)
     = Some 500 \<and>
   full_truncated (getBulkOperationResults_execute (results_client ''500'')
       (fetch_file (jsonl (replicate 500 ''{}''))) read_line plus7days_sample full_input)
     = Some False \<and>
   plus7days_sample ''yesterday'' = Inl (RangeError ''Invalid time value'') \<and>
   getBulkOperationResults_execute (results_client_undated ''yesterday'')
       (fetch_file (jsonl (replicate 500 ''{}''))) read_line plus7days_sample full_input
     = Inl (Error ''Failed to get bulk operation results: Invalid time value'')"
proof -
  have numbers: "string_of_nat 1500 = ''1500''" "string_of_nat 500 = ''500''"
    by (simp_all add: string_of_nat_digit string_of_nat_step digit_char_def)
  have big: "split_lines (trim (jsonl (replicate 1500 ''{}''))) = replicate 1500 ''{}''"
    and small: "split_lines (trim (jsonl (replicate 500 ''{}''))) = replicate 500 ''{}''"
    by (simp_all add: lines_of_sample_file)
  have "\<exists>r. getBulkOperationResults_execute (results_client ''1500'')
          (fetch_file (jsonl (replicate 1500 ''{}''))) read_line plus7days_sample full_input
        = Inr (FullResult r) \<and> length (fl_data r) = 1000 \<and> fl_truncated r"
    using full_format_cap
      [where client = "results_client ''1500''" and input = full_input
         and operationData = "\<lparr>op_id = ''gid://shopify/BulkOperation/1'',
           op_status = ''COMPLETED'', op_type = ''QUERY'',
           op_createdAt = ''2024-01-01T00:00:00Z'',
           op_completedAt = Some ''2024-01-01T00:10:00Z'', op_objectCount = ''1500'',
           op_fileSize = Some ''4500'',
           op_url = Some ''https://storage.example/result.jsonl'',
           op_partialDataUrl = None, op_errorCode = None, op_query = None\<rparr>"
         and u = "''https://storage.example/result.jsonl''"
         and fetch = "fetch_file (jsonl (replicate 1500 ''{}''))"
         and resp = "\<lparr>status = 200, statusText = ''OK'',
           body = jsonl (replicate 1500 ''{}'')\<rparr>"
         and parse = read_line and plus7days = plus7days_sample and n = 1500]
    by (auto simp add: results_client_def fetch_file_def full_input_def ok_def big numbers
        plus7days_sample_def read_line_object)
  moreover have "\<exists>r. getBulkOperationResults_execute (results_client ''500'')
          (fetch_file (jsonl (replicate 500 ''{}''))) read_line plus7days_sample full_input
        = Inr (FullResult r) \<and> length (fl_data r) = 500 \<and> \<not> fl_truncated r"
    using full_format_cap
      [where client = "results_client ''500''" and input = full_input
         and operationData = "\<lparr>op_id = ''gid://shopify/BulkOperation/1'',
           op_status = ''COMPLETED'', op_type = ''QUERY'',
           op_createdAt = ''2024-01-01T00:00:00Z'',
           op_completedAt = Some ''2024-01-01T00:10:00Z'', op_objectCount = ''500'',
           op_fileSize = Some ''4500'',
           op_url = Some ''https://storage.example/result.jsonl'',
           op_partialDataUrl = None, op_errorCode = None, op_query = None\<rparr>"
         and u = "''https://storage.example/result.jsonl''"
         and fetch = "fetch_file (jsonl (replicate 500 ''{}''))"
         and resp = "\<lparr>status = 200, statusText = ''OK'',
           body = jsonl (replicate 500 ''{}'')\<rparr>"
         and parse = read_line and plus7days = plus7days_sample and n = 500]
    by (auto simp add: results_client_def fetch_file_def full_input_def ok_def small numbers
        plus7days_sample_def read_line_object)
  moreover have "getBulkOperationResults_execute (results_client_undated ''yesterday'')
       (fetch_file (jsonl (replicate 500 ''{}''))) read_line plus7days_sample full_input
     = Inl (Error ''Failed to get bulk operation results: Invalid time value'')"
    using full_format_cap
      [where client = "results_client_undated ''yesterday''" and input = full_input
         and operationData = "\<lparr>op_id = ''gid://shopify/BulkOperation/1'',
           op_status = ''COMPLETED'', op_type = ''QUERY'',
           op_createdAt = ''2024-01-01T00:00:00Z'',
           op_completedAt = Some ''yesterday'', op_objectCount = ''1500'',
           op_fileSize = Some ''4500'',
           op_url = Some ''https://storage.example/result.jsonl'',
           op_partialDataUrl = None, op_errorCode = None, op_query = None\<rparr>"
         and u = "''https://storage.example/result.jsonl''"
         and fetch = "fetch_file (jsonl (replicate 500 ''{}''))"
         and parse = read_line and plus7days = plus7days_sample
         and completed = "''yesterday''" and e = "RangeError ''Invalid time value''"]
    by (simp add: results_client_undated_def plus7days_sample_def)
  ultimately show ?thesis
    by (auto simp add: full_count_def full_truncated_def big small numbers
        plus7days_sample_def)
qed

end
